theory Spec2Isabelle
  imports Complex_Main "HOL-Library.Sublist"
begin

section \<open>Python strings\<close>

text \<open>
  A Python \<open>str\<close> is modelled as a \<open>string\<close>, the list of the bytes of its UTF-8
  encoding. The operations below are the ones of \<open>str\<close> on ASCII text: \<open>lower\<close> maps
  \<open>A\<close>..\<open>Z\<close> only and the whitespace of \<open>split()\<close> and \<open>strip()\<close> is the ASCII
  whitespace of Python (tab, line feed, vertical tab, form feed, carriage return, the four
  separators \<open>0x1C\<close>..\<open>0x1F\<close> and the space). Cased letters and spaces beyond ASCII are
  left as they are. The symbols in the warning templates of \<open>src/app.py\<close> appear as their
  UTF-8 bytes.
\<close>

definition is_space :: "char \<Rightarrow> bool" where
  "is_space c = (c = CHR 0x09 \<or> c = CHR 0x0A \<or> c = CHR 0x0B \<or> c = CHR 0x0C \<or> c = CHR 0x0D
      \<or> c = CHR 0x1C \<or> c = CHR 0x1D \<or> c = CHR 0x1E \<or> c = CHR 0x1F \<or> c = CHR 0x20)"

definition lower_char :: "char \<Rightarrow> char" where
  "lower_char c =
     (case map_of (zip ''ABCDEFGHIJKLMNOPQRSTUVWXYZ'' ''abcdefghijklmnopqrstuvwxyz'') c of
        None \<Rightarrow> c
      | Some d \<Rightarrow> d)"

text \<open>\<open>s.lower()\<close>\<close>

definition lower :: "string \<Rightarrow> string" where
  "lower s = map lower_char s"

text \<open>\<open>s.strip()\<close>\<close>

definition strip :: "string \<Rightarrow> string" where
  "strip s = rev (dropWhile is_space (rev (dropWhile is_space s)))"

text \<open>
  \<open>s.split()\<close>: the maximal runs of characters that are not whitespace, in order. The
  first argument is the run read so far.
\<close>

fun split_ws_from :: "string \<Rightarrow> string \<Rightarrow> string list" where
  "split_ws_from cur [] = (if cur = [] then [] else [cur])"
| "split_ws_from cur (c # cs) =
     (if is_space c then (if cur = [] then [] else [cur]) @ split_ws_from [] cs
      else split_ws_from (cur @ [c]) cs)"

definition split_ws :: "string \<Rightarrow> string list" where
  "split_ws s = split_ws_from [] s"

text \<open>\<open>s.split(sep)\<close> for a separator of one character: empty fields are kept.\<close>

fun split_on :: "char \<Rightarrow> string \<Rightarrow> string list" where
  "split_on sep [] = [[]]"
| "split_on sep (c # cs) =
     (if c = sep then [] # split_on sep cs
      else (case split_on sep cs of [] \<Rightarrow> [[c]] | w # ws \<Rightarrow> (c # w) # ws))"

text \<open>\<open>sep.join(xs)\<close>\<close>

fun join :: "string \<Rightarrow> string list \<Rightarrow> string" where
  "join sep [] = []"
| "join sep [x] = x"
| "join sep (x # y # ys) = x @ sep @ join sep (y # ys)"

text \<open>\<open>sub in s\<close>\<close>

fun is_substring :: "string \<Rightarrow> string \<Rightarrow> bool" where
  "is_substring sub [] = (sub = [])"
| "is_substring sub (c # cs) = (prefix sub (c # cs) \<or> is_substring sub cs)"

text \<open>
  \<open>s.count(sub)\<close>: the occurrences of \<open>sub\<close> found from left to right without overlap;
  the empty string occurs \<open>len(s) + 1\<close> times.
\<close>

function count_sub :: "string \<Rightarrow> string \<Rightarrow> nat" where
  "count_sub s sub =
     (if sub = [] then length s + 1
      else if s = [] then 0
      else if prefix sub s then 1 + count_sub (drop (length sub) s) sub
      else count_sub (tl s) sub)"
  by pat_completeness auto
termination
  by (relation "measure (\<lambda>(s, sub). length s)") auto

declare count_sub.simps [simp del]

text \<open>
  \<open>xs[i:j]\<close> for any two integers: a negative bound counts from the end, and both are
  clamped to the list.
\<close>

definition py_slice :: "'a list \<Rightarrow> int \<Rightarrow> int \<Rightarrow> 'a list" where
  "py_slice xs i j =
     (let n = int (length xs);
          lo = (if i < 0 then max 0 (i + n) else min i n);
          hi = (if j < 0 then max 0 (j + n) else min j n)
      in take (nat (hi - lo)) (drop (nat lo) xs))"

text \<open>\<open>xs[:k]\<close>\<close>

definition py_prefix :: "'a list \<Rightarrow> int \<Rightarrow> 'a list" where
  "py_prefix xs k = py_slice xs 0 k"

datatype error = ValueError | TypeError | IndexError | Exception

section \<open>Chunker (\<open>src/nutrition_rag.py\<close>)\<close>

text \<open>
  \<^verbatim>\<open>
  def chunk_text(text, chunk_size=500, overlap=50):
      words = text.split()
      chunks = []
      for i in range(0, len(words), chunk_size - overlap):
          chunk = " ".join(words[i:i + chunk_size])
          if chunk.strip():
              chunks.append(chunk.strip())
      return chunks
  \<close>
  \<open>chunk_loop\<close> is the body of the loop from index \<open>i\<close> on, for a positive step.
  \<open>range\<close> raises \<open>ValueError\<close> for the step 0 and is empty for a negative step.
\<close>

function chunk_loop :: "string list \<Rightarrow> int \<Rightarrow> nat \<Rightarrow> nat \<Rightarrow> string list" where
  "chunk_loop words chunk_size step i =
     (if step = 0 \<or> length words \<le> i then []
      else (let chunk = join '' '' (py_slice words (int i) (int i + chunk_size))
            in (if strip chunk \<noteq> [] then [strip chunk] else [])
               @ chunk_loop words chunk_size step (i + step)))"
  by pat_completeness auto
termination
  by (relation "measure (\<lambda>(words, chunk_size, step, i). length words - i)") auto

declare chunk_loop.simps [simp del]

definition chunk_text :: "string \<Rightarrow> int \<Rightarrow> int \<Rightarrow> error + string list" where
  "chunk_text text chunk_size overlap =
     (let words = split_ws text; step = chunk_size - overlap
      in if step = 0 then Inl ValueError
         else if step < 0 then Inr []
         else Inr (chunk_loop words chunk_size (nat step) 0))"

section \<open>Keyword retriever (\<open>src/nutrition_rag.py\<close>)\<close>

text \<open>
  The dictionaries \<open>{'chunk': .., 'score': .., 'index': ..}\<close> built by
  \<open>simple_keyword_search\<close>.
\<close>

record scored_chunk =
  sc_chunk :: string
  sc_score :: nat
  sc_index :: nat

text \<open>
  The inner loop over the words of the query:
  \<^verbatim>\<open>
  for word in query_words:
      if word in chunk_lower:
          score += chunk_lower.count(word)
  \<close>
\<close>

fun keyword_hits :: "string \<Rightarrow> string list \<Rightarrow> nat" where
  "keyword_hits chunk_lower [] = 0"
| "keyword_hits chunk_lower (word # query_words) =
     (if is_substring word chunk_lower then count_sub chunk_lower word else 0)
       + keyword_hits chunk_lower query_words"

text \<open>The score of one chunk: the keyword matches, and 5 more for the whole phrase.\<close>

definition chunk_score :: "string \<Rightarrow> string \<Rightarrow> nat" where
  "chunk_score query c =
     (let query_words = split_ws (lower query);
          chunk_lower = lower c;
          hits = keyword_hits chunk_lower query_words
      in if is_substring (lower query) chunk_lower then hits + 5 else hits)"

text \<open>
  The outer loop \<open>for i, chunk in enumerate(chunks)\<close>, from index \<open>i\<close> on: a chunk is
  recorded only \<open>if score > 0\<close>.
\<close>

fun score_chunks :: "string \<Rightarrow> nat \<Rightarrow> string list \<Rightarrow> scored_chunk list" where
  "score_chunks query i [] = []"
| "score_chunks query i (c # cs) =
     (if chunk_score query c > 0
      then [\<lparr>sc_chunk = c, sc_score = chunk_score query c, sc_index = i\<rparr>] else [])
       @ score_chunks query (Suc i) cs"

text \<open>
  \<open>xs.sort(key=lambda x: x['score'], reverse=True)\<close>: the sort of Python is stable, also
  with \<open>reverse=True\<close>, and so is \<open>sort_key\<close>.
\<close>

definition sort_desc :: "('a \<Rightarrow> nat) \<Rightarrow> 'a list \<Rightarrow> 'a list" where
  "sort_desc f xs = sort_key (\<lambda>x. - int (f x)) xs"

definition scored_chunks :: "string \<Rightarrow> string list \<Rightarrow> scored_chunk list" where
  "scored_chunks query chunks = score_chunks query 0 chunks"

definition simple_keyword_search :: "string \<Rightarrow> string list \<Rightarrow> int \<Rightarrow> scored_chunk list" where
  "simple_keyword_search query chunks top_k =
     py_prefix (sort_desc sc_score (scored_chunks query chunks)) top_k"

section \<open>Context builder (\<open>src/nutrition_rag.py\<close>)\<close>

text \<open>The document dictionaries that the uploader stores.\<close>

record document =
  doc_name :: string
  doc_content :: string
  doc_chunks :: "string list"
  doc_type :: string
  doc_size :: nat

text \<open>The dictionaries \<open>{'text': .., 'document': .., 'score': ..}\<close> of the pool.\<close>

record relevant_chunk =
  rc_text :: string
  rc_document :: string
  rc_score :: nat

text \<open>
  \<^verbatim>\<open>
  for doc in documents:
      chunks = doc.get('chunks', [])
      if chunks:
          relevant = simple_keyword_search(query, chunks, top_k=2)
          for item in relevant:
              all_relevant_chunks.append({'text': item['chunk'],
                  'document': doc['name'], 'score': item['score']})
  \<close>
\<close>

fun all_relevant_chunks :: "string \<Rightarrow> document list \<Rightarrow> relevant_chunk list" where
  "all_relevant_chunks query [] = []"
| "all_relevant_chunks query (doc # documents) =
     (if doc_chunks doc \<noteq> []
      then map (\<lambda>item. \<lparr>rc_text = sc_chunk item, rc_document = doc_name doc, rc_score = sc_score item\<rparr>)
             (simple_keyword_search query (doc_chunks doc) 2)
      else [])
       @ all_relevant_chunks query documents"

definition top_chunks :: "string \<Rightarrow> document list \<Rightarrow> relevant_chunk list" where
  "top_chunks query documents = py_prefix (sort_desc rc_score (all_relevant_chunks query documents)) 3"

definition context_part :: "relevant_chunk \<Rightarrow> string" where
  "context_part c = ''From '' @ rc_document c @ '':\<newline>'' @ rc_text c"

definition context_header :: string where
  "context_header = ''\<newline>\<newline>--- RELEVANT NUTRITION INFORMATION ---\<newline>''"

definition context_footer :: string where
  "context_footer = ''\<newline>--- END NUTRITION INFORMATION ---\<newline>\<newline>''"

definition build_context_from_documents :: "string \<Rightarrow> document list \<Rightarrow> string" where
  "build_context_from_documents query documents =
     (if documents = [] then []
      else if all_relevant_chunks query documents = [] then []
      else context_header
             @ join ''\<newline>\<newline>'' (map context_part (top_chunks query documents))
             @ context_footer)"

section \<open>Document upload (\<open>src/nutrition_rag.py\<close>)\<close>

text \<open>
  An uploaded file, with the text that the reader for its kind returns for it:
  \<open>process_pdf_file\<close>, \<open>process_csv_file\<close> and \<open>process_text_file\<close> parse the bytes with
  libraries and return the empty string when they fail. The three readers are parameters.
\<close>

record uploaded_file =
  file_name :: string
  file_type :: string
  file_bytes :: string

record readers =
  process_pdf_file :: "uploaded_file \<Rightarrow> string"
  process_csv_file :: "uploaded_file \<Rightarrow> string"
  process_text_file :: "uploaded_file \<Rightarrow> string"

definition read_content :: "readers \<Rightarrow> uploaded_file \<Rightarrow> string" where
  "read_content rd file =
     (if file_type file = ''application/pdf'' then process_pdf_file rd file
      else if file_type file = ''text/csv'' \<or> suffix ''.csv'' (file_name file)
        then process_csv_file rd file
      else process_text_file rd file)"

text \<open>
  The body of the loop \<open>for file in uploaded_files\<close> on the stored list: a file whose name
  is stored is skipped, and so is a file with no content.
\<close>

definition process_file :: "readers \<Rightarrow> document list \<Rightarrow> uploaded_file \<Rightarrow> error + document list" where
  "process_file rd nutrition_documents file =
     (if \<not> (file_name file \<in> set (map doc_name nutrition_documents)) then
        (let content = read_content rd file in
         if content \<noteq> [] then
           (case chunk_text content 500 50 of
              Inl e \<Rightarrow> Inl e
            | Inr chunks \<Rightarrow>
                Inr (nutrition_documents @
                  [\<lparr>doc_name = file_name file, doc_content = content, doc_chunks = chunks,
                    doc_type = file_type file, doc_size = length content\<rparr>]))
         else Inr nutrition_documents)
      else Inr nutrition_documents)"

fun process_files :: "readers \<Rightarrow> document list \<Rightarrow> uploaded_file list \<Rightarrow> error + document list" where
  "process_files rd nutrition_documents [] = Inr nutrition_documents"
| "process_files rd nutrition_documents (file # uploaded_files) =
     (case process_file rd nutrition_documents file of
        Inl e \<Rightarrow> Inl e
      | Inr docs \<Rightarrow> process_files rd docs uploaded_files)"

text \<open>
  One run of \<open>nutrition_document_uploader\<close>. The state is the entry
  \<open>nutrition_documents\<close> of the session, \<open>None\<close> while the key is absent; the inputs are
  the files that the widget holds and whether the button that clears the documents is
  pressed in this run. With no file the function does nothing.
\<close>

definition nutrition_document_uploader ::
  "readers \<Rightarrow> document list option \<Rightarrow> uploaded_file list \<Rightarrow> bool \<Rightarrow> error + document list option" where
  "nutrition_document_uploader rd st uploaded_files clear_button =
     (if uploaded_files \<noteq> [] then
        (case process_files rd (case st of None \<Rightarrow> [] | Some docs \<Rightarrow> docs) uploaded_files of
           Inl e \<Rightarrow> Inl e
         | Inr docs \<Rightarrow> if clear_button then Inr (Some []) else Inr (Some docs))
      else Inr st)"

text \<open>A session: the runs of the uploader one after the other, from a given state.\<close>

fun uploader_runs ::
  "readers \<Rightarrow> document list option \<Rightarrow> (uploaded_file list \<times> bool) list \<Rightarrow> error + document list option" where
  "uploader_runs rd st [] = Inr st"
| "uploader_runs rd st ((uploaded_files, clear_button) # runs) =
     (case nutrition_document_uploader rd st uploaded_files clear_button of
        Inl e \<Rightarrow> Inl e
      | Inr st' \<Rightarrow> uploader_runs rd st' runs)"

text \<open>\<open>st.session_state.get('nutrition_documents', [])\<close>\<close>

definition stored_documents :: "document list option \<Rightarrow> document list" where
  "stored_documents st = (case st of None \<Rightarrow> [] | Some docs \<Rightarrow> docs)"

section \<open>Nutrition estimator (\<open>src/app.py\<close>)\<close>

text \<open>
  The numbers of \<open>calculate_nutrition\<close> are rationals. Python computes them in binary
  floating point; the products of the entries of the tables (at most one decimal) with the
  multipliers 1, 2 and 3 are never half-way between two values with one decimal, so that
  rounding them gives the same decimal in both. With the multiplier 0.5 the results of
  \<open>round(x, 1)\<close> on a tie may differ from the rational ones.

  \<open>py_round\<close> is \<open>round(x)\<close>, to the nearest integer and to the even one on a tie;
  \<open>py_round1\<close> is \<open>round(x, 1)\<close>.
\<close>

definition py_round :: "rat \<Rightarrow> int" where
  "py_round x =
     (let f = \<lfloor>x\<rfloor>; d = x - of_int f
      in if d < 1 / 2 then f else if 1 / 2 < d then f + 1 else if even f then f else f + 1)"

definition py_round1 :: "rat \<Rightarrow> rat" where
  "py_round1 x = of_int (py_round (x * 10)) / 10"

text \<open>
  The dictionary that \<open>calculate_nutrition\<close> returns. \<open>n_fiber\<close>, \<open>n_sugar\<close> and
  \<open>n_sodium\<close> are the keys that only a result of the Edamam API has, \<open>n_note\<close> the key
  that only an estimate has.
\<close>

record nutrition =
  n_food :: string
  n_quantity :: string
  n_calories :: int
  n_protein :: rat
  n_carbs :: rat
  n_fat :: rat
  n_fiber :: "rat option"
  n_sugar :: "rat option"
  n_sodium :: "rat option"
  n_success :: bool
  n_source :: string
  n_note :: "string option"

text \<open>
  \<open>food_db\<close>, in the order of the dictionary (Python iterates in the order of insertion):
  the name, then calories, protein, carbs and fat.
\<close>

definition food_db :: "(string \<times> rat \<times> rat \<times> rat \<times> rat) list" where
  "food_db =
    [(''egg'', 70, 6, 0.5, 5),
     (''toast'', 80, 3, 15, 1),
     (''apple'', 95, 0.5, 25, 0.3),
     (''banana'', 105, 1.3, 27, 0.4),
     (''chicken breast'', 165, 31, 0, 3.6),
     (''chicken'', 165, 31, 0, 3.6),
     (''rice'', 130, 2.7, 28, 0.3),
     (''salmon'', 208, 22, 0, 12),
     (''broccoli'', 25, 3, 5, 0.3),
     (''bread'', 75, 2.5, 14, 1),
     (''pasta'', 220, 8, 44, 1.5),
     (''pizza'', 285, 12, 36, 10),
     (''salad'', 20, 1.5, 4, 0.2),
     (''beef'', 250, 26, 0, 17),
     (''pork'', 242, 27, 0, 14),
     (''fish'', 206, 22, 0, 12),
     (''tuna'', 154, 25, 0, 5),
     (''turkey'', 135, 25, 0, 3.2),
     (''cheese'', 113, 7, 1, 9),
     (''milk'', 42, 3.4, 5, 1),
     (''yogurt'', 59, 10, 3.6, 0.4),
     (''oatmeal'', 68, 2.4, 12, 1.4),
     (''cereal'', 379, 8, 84, 1.5),
     (''orange'', 47, 0.9, 12, 0.1),
     (''grape'', 69, 0.6, 16, 0.4),
     (''carrot'', 25, 0.5, 6, 0.1),
     (''potato'', 77, 2, 17, 0.1),
     (''tomato'', 18, 0.9, 3.9, 0.2),
     (''lettuce'', 5, 0.5, 1, 0.1),
     (''spinach'', 7, 0.9, 1.1, 0.1),
     (''burger'', 354, 17, 31, 17),
     (''sandwich'', 300, 15, 35, 12),
     (''soup'', 85, 4, 12, 2.5),
     (''steak'', 271, 26, 0, 19),
     (''avocado'', 234, 2.9, 12, 21)]"

text \<open>\<open>any(word in s for word in words)\<close>\<close>

definition any_in :: "string list \<Rightarrow> string \<Rightarrow> bool" where
  "any_in words s = (\<exists>word\<in>set words. is_substring word s)"

definition multiplier :: "string \<Rightarrow> string \<Rightarrow> rat" where
  "multiplier food_lower quantity =
     (if is_substring ''2'' quantity \<or> is_substring ''two'' food_lower then 2
      else if is_substring ''3'' quantity \<or> is_substring ''three'' food_lower then 3
      else if is_substring ''half'' food_lower \<or> is_substring ''0.5'' quantity then 0.5
      else 1)"

definition estimated_nutrition :: "string \<Rightarrow> rat \<times> rat \<times> rat \<times> rat" where
  "estimated_nutrition food_lower =
     (if any_in [''meat'', ''chicken'', ''beef'', ''pork'', ''fish''] food_lower then (200, 25.0, 2.0, 8.0)
      else if any_in [''fruit'', ''apple'', ''orange'', ''berry''] food_lower then (80, 1.0, 20.0, 0.5)
      else if any_in [''vegetable'', ''broccoli'', ''carrot'', ''spinach''] food_lower then (30, 2.0, 6.0, 0.3)
      else if any_in [''bread'', ''pasta'', ''rice'', ''grain''] food_lower then (180, 6.0, 35.0, 2.0)
      else (150, 8.0, 20.0, 5.0))"

text \<open>
  \<open>calculate_nutrition\<close>. The first argument is what \<open>get_edamam_nutrition(food_item,
  quantity)\<close> returns, \<open>None\<close> when the API is unavailable or fails. The loop over
  \<open>food_db.items()\<close> returns at the first name that occurs in \<open>food_lower\<close>.
\<close>

definition calculate_nutrition :: "nutrition option \<Rightarrow> string \<Rightarrow> string \<Rightarrow> nutrition" where
  "calculate_nutrition edamam_result food_item quantity =
     (case edamam_result of
        Some r \<Rightarrow> r
      | None \<Rightarrow>
          (let food_lower = lower food_item;
               m = multiplier food_lower quantity
           in case find (\<lambda>(food, nutrition). is_substring food food_lower) food_db of
                Some (food, cal, pro, carb, fat) \<Rightarrow>
                  \<lparr>n_food = food_item, n_quantity = quantity,
                    n_calories = py_round (cal * m),
                    n_protein = py_round1 (pro * m),
                    n_carbs = py_round1 (carb * m),
                    n_fat = py_round1 (fat * m),
                    n_fiber = None, n_sugar = None, n_sodium = None,
                    n_success = True, n_source = ''Local Database'', n_note = None\<rparr>
              | None \<Rightarrow>
                  (case estimated_nutrition food_lower of
                     (cal, pro, carb, fat) \<Rightarrow>
                       \<lparr>n_food = food_item, n_quantity = quantity,
                         n_calories = py_round (cal * m),
                         n_protein = py_round1 (pro * m),
                         n_carbs = py_round1 (carb * m),
                         n_fat = py_round1 (fat * m),
                         n_fiber = None, n_sugar = None, n_sodium = None,
                         n_success = False, n_source = ''Estimated'',
                         n_note = Some ''Estimated values based on food category''\<rparr>)))"

section \<open>Safety filter (\<open>src/app.py\<close>)\<close>

definition unsafe_patterns :: "string list" where
  "unsafe_patterns =
    [''extreme diet'', ''crash diet'', ''starvation'', ''no food'', ''skip meals'', ''fast for days'',
     ''eat nothing'', ''stop eating'', ''starve yourself'', ''severe calorie restriction'',
     ''dangerous'', ''harmful'', ''toxic'', ''poison'', ''laxatives'', ''diet pills'', ''weight loss pills'',
     ''appetite suppressants'', ''fat burners'', ''detox tea'', ''cleanse pills'',
     ''eating disorder'', ''anorexia'', ''bulimia'', ''binge eating'', ''purging'', ''vomiting'',
     ''pro ana'', ''pro mia'', ''thinspo'', ''skinny goals'',
     ''self harm'', ''hurt yourself'', ''punish yourself'', ''exercise until exhaustion'',
     ''workout punishment'', ''food punishment'', ''guilt eating'',
     ''cure diabetes'', ''cure cancer'', ''magic weight loss'', ''miracle diet'',
     ''lose 20 pounds in a week'', ''instant results'', ''no exercise needed'',
     ''sexual'', ''explicit'', ''violence'', ''hate'', ''discrimination'', ''racist'',
     ''suicide'', ''death'', ''kill'', ''murder'']"

text \<open>
  The two classifiers are external models. A call raises or returns its result: for the
  toxicity classifier a list of lists of labels with their scores, for the sentiment
  analyser a list of them. The scores are the rationals that the floats stand for.
\<close>

datatype 'a call = Raises | Returns 'a

record classifiers =
  toxicity_classifier :: "string \<Rightarrow> (string \<times> rat) list list call"
  sentiment_analyzer :: "string \<Rightarrow> (string \<times> rat) list call"

text \<open>
  \<^verbatim>\<open>
  if toxicity_results and len(toxicity_results[0]) > 0:
      toxic_score = toxicity_results[0][0]['score'] \
          if toxicity_results[0][0]['label'] == 'TOXIC' else toxicity_results[0][1]['score']
  \<close>
  \<open>None\<close> when the condition fails; \<open>IndexError\<close> when there is one label only and it
  is not \<open>TOXIC\<close>.
\<close>

definition toxic_score :: "(string \<times> rat) list list \<Rightarrow> error + rat option" where
  "toxic_score toxicity_results =
     (case toxicity_results of
        [] \<Rightarrow> Inr None
      | r0 # _ \<Rightarrow>
          (case r0 of
             [] \<Rightarrow> Inr None
           | (label0, score0) # rest \<Rightarrow>
               if label0 = ''TOXIC'' then Inr (Some score0)
               else (case rest of
                       [] \<Rightarrow> Inl IndexError
                     | (label1, score1) # _ \<Rightarrow> Inr (Some score1))))"

definition body_terms :: "string list" where
  "body_terms = [''body'', ''weight'', ''fat'', ''skinny'', ''food'', ''eat'', ''diet'', ''calories'']"

text \<open>
  The body of the \<open>try\<close> of \<open>check_nutrition_safety\<close>: an exception ends it, and what
  was appended to \<open>flagged\<close> before stays.
\<close>

definition ai_safety_checks :: "classifiers \<Rightarrow> string \<Rightarrow> string \<Rightarrow> string list \<Rightarrow> string list" where
  "ai_safety_checks cls txt text_lower flagged =
     (case toxicity_classifier cls txt of
        Raises \<Rightarrow> flagged
      | Returns toxicity_results \<Rightarrow>
          (case toxic_score toxicity_results of
             Inl e \<Rightarrow> flagged
           | Inr ts \<Rightarrow>
               (let flagged1 =
                      (case ts of
                         None \<Rightarrow> flagged
                       | Some s \<Rightarrow> if s > 0.7 then flagged @ [''AI-detected toxic content'']
                                   else flagged)
                in case sentiment_analyzer cls txt of
                     Raises \<Rightarrow> flagged1
                   | Returns [] \<Rightarrow> flagged1
                   | Returns ((label, score) # _) \<Rightarrow>
                       if label = ''NEGATIVE'' \<and> score > 0.9 \<and> any_in body_terms text_lower
                       then flagged1 @ [''AI-detected harmful body/food negativity'']
                       else flagged1)))"

text \<open>
  \<open>check_nutrition_safety\<close>. The first argument is \<open>None\<close> when \<open>SENTIMENT_AVAILABLE\<close>
  is false, and the two classifiers otherwise.
\<close>

definition check_nutrition_safety :: "classifiers option \<Rightarrow> string \<Rightarrow> bool \<times> string list" where
  "check_nutrition_safety sentiment txt =
     (let text_lower = lower txt;
          flagged = filter (\<lambda>pattern. is_substring pattern text_lower) unsafe_patterns;
          flagged' =
            (case sentiment of
               None \<Rightarrow> flagged
             | Some cls \<Rightarrow>
                 if length (strip txt) > 10 then ai_safety_checks cls txt text_lower flagged
                 else flagged)
      in (length flagged' = 0, flagged'))"

section \<open>Recipe safety filter (\<open>src/app.py\<close>)\<close>

text \<open>The three fixed texts, with their symbols as UTF-8 bytes.\<close>

definition allergy_warning :: string where
  "allergy_warning = [CHR 0xE2, CHR 0x9A, CHR 0xA0, CHR 0xEF, CHR 0xB8, CHR 0x8F]
     @ '' **ALLERGY WARNING**: This recipe contains: ''"

definition unpreferred_note :: string where
  "unpreferred_note = [CHR 0xE2, CHR 0x84, CHR 0xB9, CHR 0xEF, CHR 0xB8, CHR 0x8F]
     @ '' **Note**: This recipe contains foods you prefer to avoid: ''"

definition consult_text :: string where
  "consult_text = [CHR 0xF0, CHR 0x9F, CHR 0x9A, CHR 0xA8]
     @ '' **Please consult with a healthcare provider before consuming foods you'' @ [CHR 0x27]
     @ ''re allergic to.**''"

text \<open>
  \<open>filter_recipe_for_user_safety\<close>. \<open>is_safe\<close> starts true and is set to false in the
  loop whenever an allergy is appended to \<open>detected_allergens\<close>: at the end it is true
  exactly when that list is empty.
\<close>

definition filter_recipe_for_user_safety ::
  "string \<Rightarrow> string \<Rightarrow> string list \<Rightarrow> bool \<times> string \<times> string list" where
  "filter_recipe_for_user_safety recipe_text user_allergies_str unpreferred_foods_list =
     (let user_allergies =
            (if user_allergies_str \<noteq> []
             then map (\<lambda>allergy. lower (strip allergy)) (split_on CHR '','' user_allergies_str)
             else []);
          unpreferred_foods =
            (if unpreferred_foods_list \<noteq> []
             then map (\<lambda>food. lower (strip food)) unpreferred_foods_list
             else []);
          recipe_lower = lower recipe_text;
          detected_allergens = filter (\<lambda>allergy. is_substring allergy recipe_lower) user_allergies;
          is_safe = (detected_allergens = []);
          detected_unpreferred = filter (\<lambda>food. is_substring food recipe_lower) unpreferred_foods;
          warnings =
            (if detected_allergens \<noteq> []
             then [allergy_warning @ join '', '' detected_allergens] else [])
            @ (if detected_unpreferred \<noteq> []
               then [unpreferred_note @ join '', '' detected_unpreferred] else []);
          filtered_content =
            (if warnings \<noteq> []
             then (''\<newline>\<newline>'' @ join ''\<newline>'' warnings)
                  @ (if \<not> is_safe then ''\<newline>\<newline>'' @ consult_text else [])
                  @ ''\<newline>\<newline>'' @ recipe_text
             else recipe_text)
      in (is_safe, filtered_content, warnings))"

section \<open>Request processing (\<open>src/app.py\<close>)\<close>

text \<open>\<open>s.replace(old, new)\<close>: the occurrences of \<open>old\<close> from left to right, without overlap.\<close>

function replace_str :: "string \<Rightarrow> string \<Rightarrow> string \<Rightarrow> string" where
  "replace_str s old new =
     (if old = [] then new @ concat (map (\<lambda>c. c # new) s)
      else if s = [] then []
      else if prefix old s then new @ replace_str (drop (length old) s) old new
      else hd s # replace_str (tl s) old new)"
  by pat_completeness auto
termination
  by (relation "measure (\<lambda>(s, old, new). length s)") auto

declare replace_str.simps [simp del]

text \<open>
  \<open>extract_nutrition_data\<close> searches the response with regular expressions and always
  returns a dictionary with these keys; it is a parameter of the model. In a chat entry
  the key \<open>nutrition_data\<close> holds \<open>None\<close>, the empty dictionary or such a dictionary.
\<close>

record extracted_data =
  x_calories :: int
  x_protein :: rat
  x_carbs :: rat
  x_fat :: rat
  x_source :: string

datatype extraction = Null | Empty_Dict | Data extracted_data

record chat_entry =
  ce_prompt :: string
  ce_response :: string
  ce_persona :: string
  ce_temperature :: rat
  ce_function_result :: "nutrition option"
  ce_nutrition_data :: extraction
  ce_timestamp :: rat
  ce_has_image :: bool
  ce_request_type :: string

record meal_entry =
  me_food :: string
  me_time :: string
  me_nutrition :: "nutrition + extraction"
  me_ai_advice :: string

text \<open>
  The entries of \<open>st.session_state\<close> that \<open>process_nutrition_request\<close> reads or writes
  (\<open>allergies\<close> and \<open>unpreferred_foods\<close> are the two keys of \<open>user_profile\<close> that the
  recipe filter reads). \<open>initialize_session_state\<close> creates them all, with every key of
  the profile, before a request is processed.
\<close>

record session_state =
  chat_history :: "chat_entry list"
  nutrition_data :: "nutrition list"
  meal_log :: "meal_entry list"
  latest_ai_response :: "string option"
  clear_image :: bool
  allergies :: string
  unpreferred_foods :: "string list"

text \<open>
  What the generation gives for the request. \<open>generate_nutrition_response\<close> catches its
  own exceptions and returns \<open>None\<close> then (\<open>No_Response\<close>). \<open>Response t\<close> is a response
  whose text, for a stream the texts of its chunks one after the other, is \<open>t\<close>.
  \<open>Generation_Raises\<close> is an exception inside the \<open>try\<close> of
  \<open>process_nutrition_request\<close> on the way to that text: reading the uploaded image,
  looking up \<open>persona_config['system_instruction']\<close>, iterating the stream or reading
  \<open>response.text\<close>.
\<close>

datatype generation = Generation_Raises | No_Response | Response string

text \<open>
  The collaborators of one request: the classifiers if they were loaded, the Edamam
  lookup, the generation, the extraction from the response, and the clock.
\<close>

record env =
  sentiment_models :: "classifiers option"
  get_edamam_nutrition :: "string \<Rightarrow> string \<Rightarrow> nutrition option"
  generation_result :: generation
  extract_nutrition_data :: "string \<Rightarrow> extracted_data"
  time_time :: rat
  time_strftime :: string

definition calculator_keywords :: "string list" where
  "calculator_keywords =
    [''calorie'', ''calories'', ''nutrition'', ''macro'', ''protein'', ''carb'', ''fat'', ''ate'',
     ''eating'', ''food'']"

definition food_keywords :: "string list" where
  "food_keywords =
    [''egg'', ''toast'', ''apple'', ''banana'', ''chicken'', ''rice'', ''salmon'', ''broccoli'', ''bread'',
     ''pasta'', ''pizza'', ''salad'', ''beef'', ''pork'', ''fish'', ''tuna'', ''turkey'', ''cheese'', ''milk'',
     ''yogurt'', ''oatmeal'', ''cereal'', ''orange'', ''grape'', ''carrot'', ''potato'', ''tomato'',
     ''lettuce'', ''spinach'', ''burger'', ''sandwich'', ''soup'', ''steak'', ''avocado'']"

text \<open>
  Stage 3, before the \<open>try\<close>: the function call of the nutrition calculator. The list
  of detected foods is never empty when its first element is taken.
\<close>

definition function_call :: "env \<Rightarrow> string \<Rightarrow> string \<Rightarrow> bool \<Rightarrow> nutrition option" where
  "function_call e prompt_to_use request_type enable_nutrition_calculator =
     (if enable_nutrition_calculator then
        (let should_calculate =
               (request_type = ''image'' \<or> any_in calculator_keywords (lower prompt_to_use))
         in if should_calculate then
              (let detected = filter (\<lambda>food. is_substring food (lower prompt_to_use)) food_keywords;
                   detected_foods =
                     (if detected = [] then
                        (if request_type = ''image'' then [''pasta dish with sauce'']
                         else [take 100 (strip prompt_to_use)])
                      else detected)
               in case detected_foods of
                    [] \<Rightarrow> None
                  | food # _ \<Rightarrow>
                      (let food_item =
                             strip (replace_str
                               (replace_str
                                 (replace_str food ''what are the nutrition facts for'' [])
                                 ''calories in'' [])
                               ''nutrition info for'' [])
                       in Some (calculate_nutrition (get_edamam_nutrition e food_item ''1 serving'')
                                  food_item ''1 serving'')))
            else None)
      else None)"

definition recipe_keywords :: "string list" where
  "recipe_keywords = [''recipe'', ''ingredients'', ''meal plan'', ''breakfast'', ''lunch'', ''dinner'']"

definition no_response_text :: string where
  "no_response_text = ''Sorry, I couldn'' @ [CHR 0x27] @ ''t generate a response. Please try again.''"

text \<open>
  The first part of the \<open>try\<close>: the branch for streaming and the one without. It gives
  \<open>response_text\<close> and the session, or raises. In the branch for streaming the recipe
  filter is called with its three arguments and its text is stored for the avatar.
\<close>

definition generate_response :: "env \<Rightarrow> session_state \<Rightarrow> bool \<Rightarrow> error + string \<times> session_state" where
  "generate_response e st enable_streaming =
     (case generation_result e of
        Generation_Raises \<Rightarrow> Inl Exception
      | No_Response \<Rightarrow>
          if enable_streaming then Inr ([], st) else Inr (no_response_text, st)
      | Response response_text \<Rightarrow>
          if enable_streaming then
            (if any_in recipe_keywords (lower response_text) then
               (case filter_recipe_for_user_safety response_text (allergies st) (unpreferred_foods st) of
                  (is_safe, filtered_response, warnings) \<Rightarrow>
                    Inr (response_text, st\<lparr>latest_ai_response := Some filtered_response\<rparr>))
             else Inr (response_text, st\<lparr>latest_ai_response := Some response_text\<rparr>))
          else Inr (response_text, st\<lparr>latest_ai_response := Some response_text\<rparr>))"

definition meal_keywords :: "string list" where
  "meal_keywords =
    [''ate'', ''meal'', ''breakfast'', ''lunch'', ''dinner'', ''snack'', ''food'', ''eating'', ''consumed'',
     ''had'', ''calories'', ''nutrition'', ''protein'', ''carbs'', ''fat'', ''drink'', ''beverage'', ''recipe'',
     ''ingredient'', ''cooking'', ''cooked'', ''prepared'', ''portion'', ''serving'']"

text \<open>\<open>s[:n] + "..." if len(s) > n else s\<close>\<close>

definition shorten :: "nat \<Rightarrow> string \<Rightarrow> string" where
  "shorten n s = (if length s > n then take n s @ ''...'' else s)"

text \<open>
  The body of the \<open>try\<close>. It returns the session as it is when the body ends, and the
  exception if one ended it: an exception does not undo what was written before it.

  After the first part the body calls \<open>filter_recipe_for_user_safety(response_text)\<close>,
  with one argument for a function of three, whenever the response is not empty and has a
  recipe keyword: that call raises \<open>TypeError\<close>. The statements after the append to
  \<open>chat_history\<close> append to the meal log, display, and set \<open>clear_image\<close>.
\<close>

definition try_block ::
  "env \<Rightarrow> session_state \<Rightarrow> string \<Rightarrow> bool \<Rightarrow> string \<Rightarrow> rat \<Rightarrow> nutrition option
     \<Rightarrow> bool \<Rightarrow> bool \<Rightarrow> string \<Rightarrow> session_state \<times> error option" where
  "try_block e st prompt_to_use has_image selected_persona temperature function_result
       enable_streaming enable_meal_logging request_type =
     (case generate_response e st enable_streaming of
        Inl err \<Rightarrow> (st, Some err)
      | Inr (response_text, st1) \<Rightarrow>
          if response_text \<noteq> [] \<and> any_in recipe_keywords (lower response_text)
          then (st1, Some TypeError)
          else
            (let st2 = (case function_result of
                          None \<Rightarrow> st1
                        | Some r \<Rightarrow> st1\<lparr>nutrition_data := nutrition_data st1 @ [r]\<rparr>);
                 extracted_nutrition =
                   (if response_text \<noteq> [] then Data (extract_nutrition_data e response_text)
                    else Empty_Dict);
                 final_response = response_text;
                 chat_entry =
                   \<lparr>ce_prompt = prompt_to_use, ce_response = final_response,
                     ce_persona = selected_persona, ce_temperature = temperature,
                     ce_function_result = function_result, ce_nutrition_data = extracted_nutrition,
                     ce_timestamp = time_time e, ce_has_image = has_image,
                     ce_request_type = request_type\<rparr>;
                 st3 = st2\<lparr>chat_history := chat_history st2 @ [chat_entry]\<rparr>;
                 has_food_keywords = any_in meal_keywords (lower prompt_to_use);
                 has_nutrition_data = (function_result \<noteq> None \<or> extracted_nutrition \<noteq> Empty_Dict);
                 st4 =
                   (if enable_meal_logging \<and> (has_image \<or> has_food_keywords \<or> has_nutrition_data)
                    then st3\<lparr>meal_log := meal_log st3 @
                           [\<lparr>me_food = shorten 100 prompt_to_use, me_time = time_strftime e,
                             me_nutrition = (case function_result of
                                               Some r \<Rightarrow> Inl r
                                             | None \<Rightarrow> Inr extracted_nutrition),
                             me_ai_advice = shorten 200 final_response\<rparr>]\<rparr>
                    else st3);
                 st5 = (if has_image \<and> request_type = ''image'' then st4\<lparr>clear_image := True\<rparr>
                        else st4)
             in (st5, None)))"

definition flagged_response :: string where
  "flagged_response = ''Content flagged for safety and blocked''"

definition error_response :: string where
  "error_response = ''Sorry, there was an issue processing your request. Please try again.''"

text \<open>The entry of a blocked request and of a caught exception, but for its response.\<close>

definition placeholder_entry :: "env \<Rightarrow> string \<Rightarrow> string \<Rightarrow> bool \<Rightarrow> string \<Rightarrow> rat \<Rightarrow> string \<Rightarrow> chat_entry" where
  "placeholder_entry e response prompt_to_use has_image selected_persona temperature request_type =
     \<lparr>ce_prompt = prompt_to_use, ce_response = response,
       ce_persona = selected_persona, ce_temperature = temperature,
       ce_function_result = None, ce_nutrition_data = Null,
       ce_timestamp = time_time e, ce_has_image = has_image,
       ce_request_type = request_type\<rparr>"

text \<open>
  \<open>process_nutrition_request\<close>, as a function from the session to the session.
  \<open>has_image\<close> is \<open>uploaded_image_data is not None\<close>. Calls that only display are left
  out. The code between the safety check and the \<open>try\<close> reads keys of the profile that
  exist and calls \<open>calculate_nutrition\<close>; it does not raise.
\<close>

definition process_nutrition_request ::
  "env \<Rightarrow> session_state \<Rightarrow> string \<Rightarrow> bool \<Rightarrow> string \<Rightarrow> rat
     \<Rightarrow> bool \<Rightarrow> bool \<Rightarrow> bool \<Rightarrow> string \<Rightarrow> session_state" where
  "process_nutrition_request e st prompt_to_use has_image selected_persona temperature
       enable_nutrition_calculator enable_streaming enable_meal_logging request_type =
     (case check_nutrition_safety (sentiment_models e) prompt_to_use of
        (is_safe, flagged_terms) \<Rightarrow>
          if \<not> is_safe then
            st\<lparr>chat_history := chat_history st @
                 [placeholder_entry e flagged_response prompt_to_use has_image selected_persona
                    temperature request_type]\<rparr>
          else
            (let function_result =
                   function_call e prompt_to_use request_type enable_nutrition_calculator
             in case try_block e st prompt_to_use has_image selected_persona temperature
                       function_result enable_streaming enable_meal_logging request_type of
                  (st', None) \<Rightarrow> st'
                | (st', Some err) \<Rightarrow>
                    st'\<lparr>chat_history := chat_history st' @
                          [placeholder_entry e error_response prompt_to_use has_image
                             selected_persona temperature request_type]\<rparr>))"

section \<open>Properties of the string operations\<close>

lemma split_ws_from_props:
  "\<forall>c\<in>set cur. \<not> is_space c \<Longrightarrow> w \<in> set (split_ws_from cur s) \<Longrightarrow> w \<noteq> [] \<and> (\<forall>c\<in>set w. \<not> is_space c)"
proof (induction s arbitrary: cur)
  case Nil
  then show ?case by (cases "cur = []") simp_all
next
  case (Cons c cs)
  show ?case
  proof (cases "is_space c")
    case True
    with Cons.prems have "w \<in> set (if cur = [] then [] else [cur]) \<or> w \<in> set (split_ws_from [] cs)"
      by simp
    then show ?thesis
    proof
      assume "w \<in> set (if cur = [] then [] else [cur])"
      then have "w = cur" "cur \<noteq> []" by (simp_all split: if_splits)
      with Cons.prems(1) show ?thesis by simp
    next
      assume "w \<in> set (split_ws_from [] cs)"
      then show ?thesis using Cons.IH[of "[]"] by simp
    qed
  next
    case False
    with Cons.prems have "w \<in> set (split_ws_from (cur @ [c]) cs)" by simp
    moreover have "\<forall>d\<in>set (cur @ [c]). \<not> is_space d" using Cons.prems(1) False by simp
    ultimately show ?thesis using Cons.IH[of "cur @ [c]"] by blast
  qed
qed

lemma split_ws_props:
  "w \<in> set (split_ws s) \<Longrightarrow> w \<noteq> [] \<and> (\<forall>c\<in>set w. \<not> is_space c)"
  unfolding split_ws_def using split_ws_from_props[of "[]" w s] by simp

lemma strip_id:
  "s \<noteq> [] \<Longrightarrow> \<not> is_space (hd s) \<Longrightarrow> \<not> is_space (last s) \<Longrightarrow> strip s = s"
proof -
  assume a: "s \<noteq> []" "\<not> is_space (hd s)" "\<not> is_space (last s)"
  from a(1,2) have 1: "dropWhile is_space s = s" by (cases s) simp_all
  from a(1,3) have 2: "dropWhile is_space (rev s) = rev s" by (cases "rev s") (simp_all add: last_rev hd_rev[symmetric])
  show ?thesis unfolding strip_def by (simp add: 1 2)
qed

lemma join_hd: "ws \<noteq> [] \<Longrightarrow> hd ws \<noteq> [] \<Longrightarrow> hd (join sep ws) = hd (hd ws)"
  by (induction sep ws rule: join.induct) simp_all

lemma join_last_aux:
  "ws \<noteq> [] \<Longrightarrow> last ws \<noteq> [] \<Longrightarrow> join sep ws \<noteq> [] \<and> last (join sep ws) = last (last ws)"
  by (induction sep ws rule: join.induct) simp_all

lemma join_nonempty: "ws \<noteq> [] \<Longrightarrow> hd ws \<noteq> [] \<Longrightarrow> join sep ws \<noteq> []"
  by (induction sep ws rule: join.induct) simp_all


lemma words_chunk:
  assumes "ws \<noteq> []" and "\<forall>w\<in>set ws. w \<noteq> [] \<and> (\<forall>c\<in>set w. \<not> is_space c)"
  shows "strip (join '' '' ws) = join '' '' ws" and "join '' '' ws \<noteq> []"
proof -
  from assms have h: "hd ws \<noteq> []" and l: "last ws \<noteq> []" by simp_all
  from assms(1) h show ne: "join '' '' ws \<noteq> []" by (rule join_nonempty)
  have "hd (join '' '' ws) = hd (hd ws)" using assms(1) h by (rule join_hd)
  moreover have "hd (hd ws) \<in> set (hd ws)" using h by simp
  moreover have "hd ws \<in> set ws" using assms(1) by simp
  ultimately have 1: "\<not> is_space (hd (join '' '' ws))" using assms(2) by metis
  have "last (join '' '' ws) = last (last ws)" using join_last_aux[OF assms(1) l] by simp
  moreover have "last (last ws) \<in> set (last ws)" using l by simp
  moreover have "last ws \<in> set ws" using assms(1) by simp
  ultimately have 2: "\<not> is_space (last (join '' '' ws))" using assms(2) by metis
  from ne 1 2 show "strip (join '' '' ws) = join '' '' ws" by (rule strip_id)
qed

section \<open>Chunker\<close>

lemma py_slice_all: "int (length xs) \<le> j \<Longrightarrow> py_slice xs 0 j = xs"
  by (simp add: py_slice_def Let_def)

lemma py_slice_drop: "i \<le> length xs \<Longrightarrow> int (length xs) \<le> j \<Longrightarrow> py_slice xs (int i) j = drop i xs"
  by (simp add: py_slice_def Let_def)

text \<open>
  C2, as amended. For a text with at least one word and fewer words than \<open>chunk_size\<close>,
  and \<open>overlap < chunk_size\<close>, \<open>chunk_text\<close> returns a list whose first chunk is all the
  words of the text joined by single spaces. That chunk is the only one exactly when the
  number of words is at most \<open>chunk_size - overlap\<close>: the loop goes on from the index
  \<open>chunk_size - overlap\<close>, and the words from there on form further chunks.
\<close>

theorem chunk_text_short_text:
  assumes "0 < length (split_ws text)"
    and "int (length (split_ws text)) < chunk_size"
    and "overlap < chunk_size"
  shows "\<exists>rest. chunk_text text chunk_size overlap = Inr (join '' '' (split_ws text) # rest)
           \<and> (rest = [] \<longleftrightarrow> int (length (split_ws text)) \<le> chunk_size - overlap)"
proof -
  define ws where "ws = split_ws text"
  define step where "step = nat (chunk_size - overlap)"
  have ok: "\<forall>w\<in>set ws. w \<noteq> [] \<and> (\<forall>c\<in>set w. \<not> is_space c)"
    unfolding ws_def using split_ws_props by blast
  have wne: "ws \<noteq> []" using assms(1) by (simp add: ws_def)
  have len: "int (length ws) < chunk_size" using assms(2) by (simp add: ws_def)
  have step_pos: "0 < step" using assms(3) by (simp add: step_def)
  have text_eq: "chunk_text text chunk_size overlap = Inr (chunk_loop ws chunk_size step 0)"
    using assms(3) by (simp add: chunk_text_def Let_def ws_def step_def)
  have first: "py_slice ws 0 chunk_size = ws"
    using len py_slice_all[of ws chunk_size] by simp
  have loop0: "chunk_loop ws chunk_size step 0 = join '' '' ws # chunk_loop ws chunk_size step step"
    using wne step_pos words_chunk[OF wne ok]
    by (subst chunk_loop.simps) (simp add: first Let_def)
  have rest_iff: "chunk_loop ws chunk_size step step = [] \<longleftrightarrow> length ws \<le> step"
  proof (cases "length ws \<le> step")
    case True
    then show ?thesis by (subst chunk_loop.simps) simp
  next
    case False
    then have lt: "step < length ws" by simp
    have sl: "py_slice ws (int step) (int step + chunk_size) = drop step ws"
      using lt len py_slice_drop[of step ws "int step + chunk_size"] by simp
    have dne: "drop step ws \<noteq> []" using lt by simp
    have dok: "\<forall>w\<in>set (drop step ws). w \<noteq> [] \<and> (\<forall>c\<in>set w. \<not> is_space c)"
      using ok by (meson in_set_dropD)
    have "chunk_loop ws chunk_size step step
            = join '' '' (drop step ws) # chunk_loop ws chunk_size step (step + step)"
      using lt step_pos words_chunk[OF dne dok]
      by (subst chunk_loop.simps) (simp add: sl Let_def)
    with False show ?thesis by simp
  qed
  have "length ws \<le> step \<longleftrightarrow> int (length ws) \<le> chunk_size - overlap"
    using assms(3) by (simp add: step_def) linarith
  with rest_iff text_eq loop0 show ?thesis
    unfolding ws_def by simp
qed

theorem chunk_text_short_text_witness:
  "0 < length (split_ws ''a b c'') \<and> int (length (split_ws ''a b c'')) < 4 \<and> (1::int) < 4
     \<and> chunk_text ''a b c'' 4 1 = Inr [''a b c'']"
proof -
  have w: "split_ws ''a b c'' = [''a'', ''b'', ''c'']" by code_simp
  have h1: "0 < length (split_ws ''a b c'')" by (simp add: w)
  have h2: "int (length (split_ws ''a b c'')) < 4" by (simp add: w)
  have h3: "(1::int) < 4" by simp
  from chunk_text_short_text[OF h1 h2 h3] show ?thesis by (simp add: w)
qed

text \<open>
  The claim as stated fails: three words, \<open>chunk_size = 4\<close> and \<open>overlap = 2\<close> give two
  chunks, the second one starting at the index 2.
\<close>

theorem chunk_text_short_text_counterexample:
  "0 < length (split_ws ''a b c'') \<and> int (length (split_ws ''a b c'')) < 4 \<and> (2::int) < 4
     \<and> chunk_text ''a b c'' 4 2 = Inr [''a b c'', ''c'']"
  by code_simp

section \<open>Keyword retriever\<close>

lemma is_substring_sublist: "is_substring sub s = sublist sub s"
  by (induction s) (simp_all add: sublist_Cons_right)

lemma count_sub_zero: "\<not> is_substring sub s \<Longrightarrow> count_sub s sub = 0"
proof (induction s sub rule: count_sub.induct)
  case (1 s sub)
  show ?case
  proof (cases s)
    case Nil
    with "1.prems" show ?thesis by (subst count_sub.simps) auto
  next
    case (Cons c cs)
    with "1.prems" have np: "\<not> prefix sub s" and nt: "\<not> is_substring sub cs" by simp_all
    from "1.prems" have sne: "sub \<noteq> []" by (auto simp: is_substring_sublist)
    from "1.IH"(2)[OF sne _ np] nt Cons have "count_sub (tl s) sub = 0" by simp
    with sne np Cons show ?thesis by (subst count_sub.simps) simp
  qed
qed

lemma count_sub_pos: "is_substring sub s \<Longrightarrow> 0 < count_sub s sub"
proof (induction s sub rule: count_sub.induct)
  case (1 s sub)
  show ?case
  proof (cases "sub = []")
    case True
    then show ?thesis by (subst count_sub.simps) simp
  next
    case sne: False
    show ?thesis
    proof (cases s)
      case Nil
      with "1.prems" sne show ?thesis by simp
    next
      case (Cons c cs)
      show ?thesis
      proof (cases "prefix sub s")
        case True
        with sne Cons show ?thesis by (subst count_sub.simps) simp
      next
        case False
        with "1.prems" Cons have "is_substring sub (tl s)" by simp
        with "1.IH"(2)[OF sne _ False] Cons have "0 < count_sub (tl s) sub" by simp
        with sne False Cons show ?thesis by (subst count_sub.simps) simp
      qed
    qed
  qed
qed

lemma keyword_hits_sum:
  "keyword_hits chunk_lower ws = sum_list (map (count_sub chunk_lower) ws)"
  by (induction ws) (simp_all add: count_sub_zero)

lemma keyword_hits_zero:
  "keyword_hits chunk_lower ws = 0 \<longleftrightarrow> (\<forall>w\<in>set ws. \<not> is_substring w chunk_lower)"
proof (induction ws)
  case Nil
  show ?case by simp
next
  case (Cons w ws)
  show ?case using Cons count_sub_pos[of w chunk_lower] by auto
qed

lemma chunk_score_phrase:
  "is_substring (lower query) (lower c) \<Longrightarrow>
     chunk_score query c = 5 + sum_list (map (count_sub (lower c)) (split_ws (lower query)))"
  by (simp add: chunk_score_def Let_def keyword_hits_sum)

lemma chunk_score_zero:
  "chunk_score query c = 0 \<longleftrightarrow>
     (\<not> is_substring (lower query) (lower c)
      \<and> (\<forall>w\<in>set (split_ws (lower query)). \<not> is_substring w (lower c)))"
  by (simp add: chunk_score_def Let_def keyword_hits_zero)

lemma set_score_chunks:
  "set (score_chunks query k cs) =
     {\<lparr>sc_chunk = cs ! j, sc_score = chunk_score query (cs ! j), sc_index = k + j\<rparr> | j.
        j < length cs \<and> 0 < chunk_score query (cs ! j)}"
proof (induction cs arbitrary: k)
  case Nil
  show ?case by simp
next
  case (Cons c cs)
  have "{\<lparr>sc_chunk = (c # cs) ! j, sc_score = chunk_score query ((c # cs) ! j), sc_index = k + j\<rparr> | j.
           j < length (c # cs) \<and> 0 < chunk_score query ((c # cs) ! j)}
        = (if 0 < chunk_score query c
           then {\<lparr>sc_chunk = c, sc_score = chunk_score query c, sc_index = k\<rparr>} else {})
          \<union> {\<lparr>sc_chunk = cs ! j, sc_score = chunk_score query (cs ! j), sc_index = Suc k + j\<rparr> | j.
                j < length cs \<and> 0 < chunk_score query (cs ! j)}"
    (is "?L = ?R")
  proof (intro set_eqI iffI)
    fix x assume "x \<in> ?L"
    then obtain j where j: "j < length (c # cs)" "0 < chunk_score query ((c # cs) ! j)"
      and x: "x = \<lparr>sc_chunk = (c # cs) ! j, sc_score = chunk_score query ((c # cs) ! j), sc_index = k + j\<rparr>"
      by blast
    show "x \<in> ?R"
    proof (cases j)
      case 0
      with j x show ?thesis by simp
    next
      case (Suc j')
      with j x have "j' < length cs \<and> 0 < chunk_score query (cs ! j')
          \<and> x = \<lparr>sc_chunk = cs ! j', sc_score = chunk_score query (cs ! j'), sc_index = Suc k + j'\<rparr>"
        by simp
      then show ?thesis by blast
    qed
  next
    fix x assume "x \<in> ?R"
    then consider (a) "0 < chunk_score query c" "x = \<lparr>sc_chunk = c, sc_score = chunk_score query c, sc_index = k\<rparr>"
      | (b) j where "j < length cs" "0 < chunk_score query (cs ! j)"
          "x = \<lparr>sc_chunk = cs ! j, sc_score = chunk_score query (cs ! j), sc_index = Suc k + j\<rparr>"
      by (auto split: if_splits)
    then show "x \<in> ?L"
    proof cases
      case a
      then have "0 < length (c # cs) \<and> 0 < chunk_score query ((c # cs) ! 0)
         \<and> x = \<lparr>sc_chunk = (c # cs) ! 0, sc_score = chunk_score query ((c # cs) ! 0), sc_index = k + 0\<rparr>"
        by simp
      then show ?thesis by blast
    next
      case b
      then have "Suc j < length (c # cs) \<and> 0 < chunk_score query ((c # cs) ! Suc j)
         \<and> x = \<lparr>sc_chunk = (c # cs) ! Suc j, sc_score = chunk_score query ((c # cs) ! Suc j), sc_index = k + Suc j\<rparr>"
        by simp
      then show ?thesis by blast
    qed
  qed
  then show ?case using Cons[of "Suc k"] by (simp split: if_splits)
qed

lemma set_scored_chunks:
  "set (scored_chunks query chunks) =
     {\<lparr>sc_chunk = chunks ! j, sc_score = chunk_score query (chunks ! j), sc_index = j\<rparr> | j.
        j < length chunks \<and> 0 < chunk_score query (chunks ! j)}"
  unfolding scored_chunks_def using set_score_chunks[of query 0 chunks] by simp

lemma set_py_prefix: "set (py_prefix xs k) \<subseteq> set xs"
  unfolding py_prefix_def py_slice_def Let_def
  by (meson set_take_subset set_drop_subset subset_trans)

lemma set_sort_desc: "set (sort_desc f xs) = set xs"
  by (simp add: sort_desc_def)

lemma search_subset:
  "set (simple_keyword_search query chunks top_k) \<subseteq> set (scored_chunks query chunks)"
  unfolding simple_keyword_search_def using set_py_prefix[of "sort_desc sc_score (scored_chunks query chunks)" top_k]
  by (simp add: set_sort_desc)


text \<open>
  C4. For every query, list of chunks and \<open>top_k\<close>: a chunk whose lower-cased text contains
  the whole lower-cased query has the score 5 plus the number of occurrences of each word
  of the query in it, and it is among the scored candidates, with its index. Every result
  of \<open>simple_keyword_search\<close> is one of the candidates and has a positive score, the one
  of its chunk. A chunk has the score 0 exactly when it contains neither the query nor any
  of its words, and no result then has its index.
\<close>

theorem simple_keyword_search_scores:
  "(\<forall>i<length chunks. is_substring (lower query) (lower (chunks ! i)) \<longrightarrow>
       chunk_score query (chunks ! i)
         = 5 + sum_list (map (count_sub (lower (chunks ! i))) (split_ws (lower query)))
       \<and> \<lparr>sc_chunk = chunks ! i, sc_score = chunk_score query (chunks ! i), sc_index = i\<rparr>
           \<in> set (scored_chunks query chunks))
   \<and> (\<forall>r\<in>set (simple_keyword_search query chunks top_k).
         r \<in> set (scored_chunks query chunks) \<and> sc_index r < length chunks
         \<and> sc_chunk r = chunks ! sc_index r \<and> sc_score r = chunk_score query (sc_chunk r)
         \<and> 0 < sc_score r)
   \<and> (\<forall>i<length chunks.
         chunk_score query (chunks ! i) = 0 \<longleftrightarrow>
           \<not> is_substring (lower query) (lower (chunks ! i))
           \<and> (\<forall>w\<in>set (split_ws (lower query)). \<not> is_substring w (lower (chunks ! i))))
   \<and> (\<forall>i<length chunks. chunk_score query (chunks ! i) = 0 \<longrightarrow>
         (\<forall>r\<in>set (simple_keyword_search query chunks top_k). sc_index r \<noteq> i))"
proof (intro conjI allI impI ballI)
  fix i assume i: "i < length chunks" and ph: "is_substring (lower query) (lower (chunks ! i))"
  show sc: "chunk_score query (chunks ! i)
         = 5 + sum_list (map (count_sub (lower (chunks ! i))) (split_ws (lower query)))"
    using ph by (rule chunk_score_phrase)
  then have "0 < chunk_score query (chunks ! i)" by simp
  with i show "\<lparr>sc_chunk = chunks ! i, sc_score = chunk_score query (chunks ! i), sc_index = i\<rparr>
           \<in> set (scored_chunks query chunks)"
    unfolding set_scored_chunks by blast
next
  fix r assume "r \<in> set (simple_keyword_search query chunks top_k)"
  then have r: "r \<in> set (scored_chunks query chunks)" using search_subset by blast
  then obtain j where j: "j < length chunks" "0 < chunk_score query (chunks ! j)"
    and rj: "r = \<lparr>sc_chunk = chunks ! j, sc_score = chunk_score query (chunks ! j), sc_index = j\<rparr>"
    unfolding set_scored_chunks by blast
  from r show "r \<in> set (scored_chunks query chunks)" .
  from j rj show "sc_index r < length chunks" by simp
  from rj show "sc_chunk r = chunks ! sc_index r" by simp
  from rj show "sc_score r = chunk_score query (sc_chunk r)" by simp
  from j rj show "0 < sc_score r" by simp
next
  fix i
  show "chunk_score query (chunks ! i) = 0 \<longleftrightarrow>
           \<not> is_substring (lower query) (lower (chunks ! i))
           \<and> (\<forall>w\<in>set (split_ws (lower query)). \<not> is_substring w (lower (chunks ! i)))"
    by (rule chunk_score_zero)
next
  fix i r assume z: "chunk_score query (chunks ! i) = 0"
    and "r \<in> set (simple_keyword_search query chunks top_k)"
  then have "r \<in> set (scored_chunks query chunks)" using search_subset by blast
  then obtain j where j: "0 < chunk_score query (chunks ! j)"
    and rj: "r = \<lparr>sc_chunk = chunks ! j, sc_score = chunk_score query (chunks ! j), sc_index = j\<rparr>"
    unfolding set_scored_chunks by blast
  show "sc_index r \<noteq> i"
  proof
    assume "sc_index r = i"
    with rj have "j = i" by simp
    with j z show False by simp
  qed
qed

theorem simple_keyword_search_scores_witness:
  "is_substring (lower ''Vitamin C'') (lower ''Oranges are rich in vitamin C and fibre'')
   \<and> chunk_score ''Vitamin C'' ''Oranges are rich in vitamin C and fibre'' = 8
   \<and> \<lparr>sc_chunk = ''Oranges are rich in vitamin C and fibre'', sc_score = 8, sc_index = 1\<rparr>
       \<in> set (scored_chunks ''Vitamin C'' [''Kale has iron'', ''Oranges are rich in vitamin C and fibre''])
   \<and> simple_keyword_search ''Vitamin C'' [''Kale has iron'', ''Oranges are rich in vitamin C and fibre''] 3
       = [\<lparr>sc_chunk = ''Oranges are rich in vitamin C and fibre'', sc_score = 8, sc_index = 1\<rparr>]"
proof -
  let ?q = "''Vitamin C''" and ?c = "''Oranges are rich in vitamin C and fibre''"
  let ?chunks = "[''Kale has iron'', ?c]"
  have ph: "is_substring (lower ?q) (lower (?chunks ! 1))" by code_simp
  have cnt: "5 + sum_list (map (count_sub (lower (?chunks ! 1))) (split_ws (lower ?q))) = (8::nat)"
    by code_simp
  have res: "simple_keyword_search ?q ?chunks 3 = [\<lparr>sc_chunk = ?c, sc_score = 8, sc_index = 1\<rparr>]"
    by code_simp
  have i: "(1::nat) < length ?chunks" by simp
  from simple_keyword_search_scores[of ?chunks ?q 3] i ph
  have both: "chunk_score ?q (?chunks ! 1)
         = 5 + sum_list (map (count_sub (lower (?chunks ! 1))) (split_ws (lower ?q)))
       \<and> \<lparr>sc_chunk = ?chunks ! 1, sc_score = chunk_score ?q (?chunks ! 1), sc_index = 1\<rparr>
           \<in> set (scored_chunks ?q ?chunks)"
    by blast
  have n1: "?chunks ! 1 = ?c" by simp
  note a0 = conjunct1[OF both[unfolded n1]] and b0 = conjunct2[OF both[unfolded n1]]
  from a0 cnt[unfolded n1] have a: "chunk_score ?q ?c = 8" by simp
  from ph a b0[unfolded a] res show ?thesis unfolding n1 by blast
qed

section \<open>Context builder\<close>

lemma py_prefix_take: "0 \<le> k \<Longrightarrow> py_prefix xs k = take (nat k) xs"
  by (cases "k \<le> int (length xs)") (simp_all add: py_prefix_def py_slice_def Let_def min_def)

lemma sort_desc_Nil: "sort_desc f xs = [] \<longleftrightarrow> xs = []"
  using set_sort_desc[of f xs] by (metis set_empty)

lemma scored_chunks_Nil:
  "scored_chunks query chunks = [] \<longleftrightarrow> (\<forall>c\<in>set chunks. chunk_score query c = 0)"
proof -
  have "scored_chunks query chunks = [] \<longleftrightarrow> set (scored_chunks query chunks) = {}" by simp
  also have "\<dots> \<longleftrightarrow> (\<forall>j<length chunks. chunk_score query (chunks ! j) = 0)"
    unfolding set_scored_chunks by auto
  also have "\<dots> \<longleftrightarrow> (\<forall>c\<in>set chunks. chunk_score query c = 0)"
    by (metis in_set_conv_nth)
  finally show ?thesis .
qed

lemma search_two_Nil:
  "simple_keyword_search query chunks 2 = [] \<longleftrightarrow> (\<forall>c\<in>set chunks. chunk_score query c = 0)"
  by (simp add: simple_keyword_search_def py_prefix_take sort_desc_Nil scored_chunks_Nil)

lemma all_relevant_chunks_Nil:
  "all_relevant_chunks query documents = [] \<longleftrightarrow>
     (\<forall>doc\<in>set documents. \<forall>c\<in>set (doc_chunks doc). chunk_score query c = 0)"
proof (induction documents)
  case Nil
  show ?case by simp
next
  case (Cons doc documents)
  show ?case
  proof (cases "doc_chunks doc = []")
    case True
    with Cons show ?thesis by simp
  next
    case False
    with Cons show ?thesis by (simp add: search_two_Nil)
  qed
qed

lemma all_relevant_chunks_origin:
  "e \<in> set (all_relevant_chunks query documents) \<Longrightarrow>
     \<exists>doc\<in>set documents. rc_document e = doc_name doc \<and> rc_text e \<in> set (doc_chunks doc)
        \<and> rc_score e = chunk_score query (rc_text e) \<and> 0 < rc_score e"
proof (induction documents)
  case Nil
  then show ?case by simp
next
  case (Cons doc documents)
  from Cons.prems consider
    (here) r where "doc_chunks doc \<noteq> []" "r \<in> set (simple_keyword_search query (doc_chunks doc) 2)"
      "e = \<lparr>rc_text = sc_chunk r, rc_document = doc_name doc, rc_score = sc_score r\<rparr>"
    | (later) "e \<in> set (all_relevant_chunks query documents)"
    by (auto split: if_splits)
  then show ?case
  proof cases
    case here
    then have "r \<in> set (scored_chunks query (doc_chunks doc))" using search_subset by blast
    then obtain j where "j < length (doc_chunks doc)" "0 < chunk_score query (doc_chunks doc ! j)"
      "r = \<lparr>sc_chunk = doc_chunks doc ! j, sc_score = chunk_score query (doc_chunks doc ! j), sc_index = j\<rparr>"
      unfolding set_scored_chunks by blast
    with here(3) have "rc_document e = doc_name doc \<and> rc_text e \<in> set (doc_chunks doc)
        \<and> rc_score e = chunk_score query (rc_text e) \<and> 0 < rc_score e"
      by simp
    then show ?thesis by simp
  next
    case later
    with Cons.IH show ?thesis by auto
  qed
qed

lemma top_chunks_length: "length (top_chunks query documents) \<le> 3"
  by (simp add: top_chunks_def py_prefix_take)

lemma top_chunks_subset:
  "set (top_chunks query documents) \<subseteq> set (all_relevant_chunks query documents)"
  unfolding top_chunks_def
  using set_py_prefix[of "sort_desc rc_score (all_relevant_chunks query documents)" 3]
  by (simp add: set_sort_desc)

lemma top_chunks_Nil:
  "top_chunks query documents = [] \<longleftrightarrow> all_relevant_chunks query documents = []"
  by (simp add: top_chunks_def py_prefix_take sort_desc_Nil)


text \<open>
  C6. \<open>build_context_from_documents\<close> returns the empty string for the empty list of
  documents; for every query and list of documents it returns the empty string exactly when
  no chunk of any document has a positive score; and a context that is not empty is the
  header, the entries of \<open>top_chunks\<close> joined by blank lines and the footer, where
  \<open>top_chunks\<close> has at least one and at most 3 entries, each one a chunk of positive score
  of one of the documents, whatever the number of documents with matching chunks.
\<close>

theorem build_context_at_most_three:
  "build_context_from_documents query [] = []
   \<and> (build_context_from_documents query documents = [] \<longleftrightarrow>
        (\<forall>doc\<in>set documents. \<forall>c\<in>set (doc_chunks doc). chunk_score query c = 0))
   \<and> (build_context_from_documents query documents \<noteq> [] \<longrightarrow>
        build_context_from_documents query documents
          = context_header
            @ join ''\<newline>\<newline>'' (map context_part (top_chunks query documents))
            @ context_footer
        \<and> top_chunks query documents \<noteq> []
        \<and> length (top_chunks query documents) \<le> 3
        \<and> (\<forall>e\<in>set (top_chunks query documents).
             \<exists>doc\<in>set documents. rc_document e = doc_name doc \<and> rc_text e \<in> set (doc_chunks doc)
               \<and> rc_score e = chunk_score query (rc_text e) \<and> 0 < rc_score e))"
proof (intro conjI impI)
  show "build_context_from_documents query [] = []"
    by (simp add: build_context_from_documents_def)
  have hne: "context_header \<noteq> []" by (simp add: context_header_def)
  show empty_iff: "build_context_from_documents query documents = [] \<longleftrightarrow>
        (\<forall>doc\<in>set documents. \<forall>c\<in>set (doc_chunks doc). chunk_score query c = 0)"
  proof (cases "documents = []")
    case True
    then show ?thesis by (simp add: build_context_from_documents_def)
  next
    case False
    then show ?thesis
      using hne by (simp add: build_context_from_documents_def all_relevant_chunks_Nil)
  qed
  assume ne: "build_context_from_documents query documents \<noteq> []"
  then have d: "documents \<noteq> []" and a: "all_relevant_chunks query documents \<noteq> []"
    by (auto simp: build_context_from_documents_def split: if_splits)
  from d a show "build_context_from_documents query documents
          = context_header
            @ join ''\<newline>\<newline>'' (map context_part (top_chunks query documents))
            @ context_footer"
    by (simp add: build_context_from_documents_def)
  from a show "top_chunks query documents \<noteq> []" by (simp add: top_chunks_Nil)
  show "length (top_chunks query documents) \<le> 3" by (rule top_chunks_length)
  show "\<forall>e\<in>set (top_chunks query documents).
             \<exists>doc\<in>set documents. rc_document e = doc_name doc \<and> rc_text e \<in> set (doc_chunks doc)
               \<and> rc_score e = chunk_score query (rc_text e) \<and> 0 < rc_score e"
    using top_chunks_subset all_relevant_chunks_origin by blast
qed

text \<open>
  Four documents with five chunks that match the query \<open>iron\<close>: three entries are kept.
  No chunk matches \<open>copper\<close>.
\<close>

theorem build_context_at_most_three_witness:
  "build_context_from_documents ''copper''
         [\<lparr>doc_name = ''a.txt'', doc_content = ''iron in kale iron in beef'',
            doc_chunks = [''iron in kale'', ''iron in beef''], doc_type = ''text/plain'', doc_size = 25\<rparr>,
          \<lparr>doc_name = ''b.txt'', doc_content = ''Iron iron'',
            doc_chunks = [''Iron iron''], doc_type = ''text/plain'', doc_size = 9\<rparr>,
          \<lparr>doc_name = ''c.txt'', doc_content = ''zinc and iron'',
            doc_chunks = [''zinc and iron''], doc_type = ''text/plain'', doc_size = 13\<rparr>,
          \<lparr>doc_name = ''d.txt'', doc_content = ''iron pills'',
            doc_chunks = [''iron pills''], doc_type = ''text/plain'', doc_size = 10\<rparr>] = []
   \<and> build_context_from_documents ''iron''
         [\<lparr>doc_name = ''a.txt'', doc_content = ''iron in kale iron in beef'',
            doc_chunks = [''iron in kale'', ''iron in beef''], doc_type = ''text/plain'', doc_size = 25\<rparr>,
          \<lparr>doc_name = ''b.txt'', doc_content = ''Iron iron'',
            doc_chunks = [''Iron iron''], doc_type = ''text/plain'', doc_size = 9\<rparr>,
          \<lparr>doc_name = ''c.txt'', doc_content = ''zinc and iron'',
            doc_chunks = [''zinc and iron''], doc_type = ''text/plain'', doc_size = 13\<rparr>,
          \<lparr>doc_name = ''d.txt'', doc_content = ''iron pills'',
            doc_chunks = [''iron pills''], doc_type = ''text/plain'', doc_size = 10\<rparr>]
       = ''\<newline>\<newline>--- RELEVANT NUTRITION INFORMATION ---\<newline>From b.txt:\<newline>Iron iron\<newline>\<newline>From a.txt:\<newline>iron in kale\<newline>\<newline>From a.txt:\<newline>iron in beef\<newline>--- END NUTRITION INFORMATION ---\<newline>\<newline>''
   \<and> length (top_chunks ''iron''
         [\<lparr>doc_name = ''a.txt'', doc_content = ''iron in kale iron in beef'',
            doc_chunks = [''iron in kale'', ''iron in beef''], doc_type = ''text/plain'', doc_size = 25\<rparr>,
          \<lparr>doc_name = ''b.txt'', doc_content = ''Iron iron'',
            doc_chunks = [''Iron iron''], doc_type = ''text/plain'', doc_size = 9\<rparr>,
          \<lparr>doc_name = ''c.txt'', doc_content = ''zinc and iron'',
            doc_chunks = [''zinc and iron''], doc_type = ''text/plain'', doc_size = 13\<rparr>,
          \<lparr>doc_name = ''d.txt'', doc_content = ''iron pills'',
            doc_chunks = [''iron pills''], doc_type = ''text/plain'', doc_size = 10\<rparr>]) = 3"
proof -
  let ?docs = "[\<lparr>doc_name = ''a.txt'', doc_content = ''iron in kale iron in beef'',
            doc_chunks = [''iron in kale'', ''iron in beef''], doc_type = ''text/plain'', doc_size = 25\<rparr>,
          \<lparr>doc_name = ''b.txt'', doc_content = ''Iron iron'',
            doc_chunks = [''Iron iron''], doc_type = ''text/plain'', doc_size = 9\<rparr>,
          \<lparr>doc_name = ''c.txt'', doc_content = ''zinc and iron'',
            doc_chunks = [''zinc and iron''], doc_type = ''text/plain'', doc_size = 13\<rparr>,
          \<lparr>doc_name = ''d.txt'', doc_content = ''iron pills'',
            doc_chunks = [''iron pills''], doc_type = ''text/plain'', doc_size = 10\<rparr>]"
  have z: "\<forall>doc\<in>set ?docs. \<forall>c\<in>set (doc_chunks doc). chunk_score ''copper'' c = 0"
    by code_simp
  have 1: "build_context_from_documents ''copper'' ?docs = []"
    using build_context_at_most_three[of "''copper''" ?docs] z by blast
  have ctx: "build_context_from_documents ''iron'' ?docs
       = ''\<newline>\<newline>--- RELEVANT NUTRITION INFORMATION ---\<newline>From b.txt:\<newline>Iron iron\<newline>\<newline>From a.txt:\<newline>iron in kale\<newline>\<newline>From a.txt:\<newline>iron in beef\<newline>--- END NUTRITION INFORMATION ---\<newline>\<newline>''"
    by code_simp
  have len: "length (top_chunks ''iron'' ?docs) = 3" by code_simp
  from 1 ctx len show ?thesis by blast
qed

section \<open>Document upload\<close>

lemma chunk_text_default:
  "chunk_text content 500 50 = Inr (chunk_loop (split_ws content) 500 450 0)"
  by (simp add: chunk_text_def Let_def)

lemma process_file_cases:
  "process_file rd docs file =
     Inr (if file_name file \<notin> set (map doc_name docs) \<and> read_content rd file \<noteq> []
          then docs @ [\<lparr>doc_name = file_name file, doc_content = read_content rd file,
                         doc_chunks = chunk_loop (split_ws (read_content rd file)) 500 450 0,
                         doc_type = file_type file, doc_size = length (read_content rd file)\<rparr>]
          else docs)"
  by (simp add: process_file_def Let_def chunk_text_default)

lemma process_file_distinct:
  assumes "distinct (map doc_name docs)"
  shows "\<exists>docs'. process_file rd docs file = Inr docs' \<and> distinct (map doc_name docs')
           \<and> set (map doc_name docs) \<subseteq> set (map doc_name docs')"
  using assms by (auto simp: process_file_cases)

lemma process_files_distinct:
  "distinct (map doc_name docs) \<Longrightarrow>
     \<exists>docs'. process_files rd docs files = Inr docs' \<and> distinct (map doc_name docs')"
proof (induction files arbitrary: docs)
  case Nil
  then show ?case by simp
next
  case (Cons f fs)
  from process_file_distinct[OF Cons.prems, of rd f]
  obtain docs1 where 1: "process_file rd docs f = Inr docs1" "distinct (map doc_name docs1)"
    by blast
  from Cons.IH[OF 1(2)] 1(1) show ?case by simp
qed

lemma uploader_distinct:
  assumes "distinct (map doc_name (stored_documents st))"
  shows "\<exists>st'. nutrition_document_uploader rd st files clear_button = Inr st'
           \<and> distinct (map doc_name (stored_documents st'))"
proof (cases "files = []")
  case True
  with assms show ?thesis by (simp add: nutrition_document_uploader_def)
next
  case False
  from assms have "distinct (map doc_name (case st of None \<Rightarrow> [] | Some docs \<Rightarrow> docs))"
    by (simp add: stored_documents_def)
  from process_files_distinct[OF this, of rd files]
  obtain docs' where "process_files rd (case st of None \<Rightarrow> [] | Some docs \<Rightarrow> docs) files = Inr docs'"
    "distinct (map doc_name docs')" by blast
  with False show ?thesis
    by (simp add: nutrition_document_uploader_def stored_documents_def)
qed

lemma uploader_runs_distinct:
  "distinct (map doc_name (stored_documents st)) \<Longrightarrow>
     \<exists>st'. uploader_runs rd st runs = Inr st' \<and> distinct (map doc_name (stored_documents st'))"
proof (induction runs arbitrary: st)
  case Nil
  then show ?case by simp
next
  case (Cons run runs)
  obtain files clear_button where run: "run = (files, clear_button)" by (cases run)
  from uploader_distinct[OF Cons.prems, of rd files clear_button]
  obtain st1 where 1: "nutrition_document_uploader rd st files clear_button = Inr st1"
    "distinct (map doc_name (stored_documents st1))" by blast
  from Cons.IH[OF 1(2)] 1(1) run show ?case by simp
qed

lemma process_files_stored:
  "\<forall>file\<in>set files. file_name file \<in> set (map doc_name docs) \<Longrightarrow>
     process_files rd docs files = Inr docs"
  by (induction files) (simp_all add: process_file_cases)


lemma count_name_distinct:
  "distinct (map doc_name docs) \<Longrightarrow>
     length (filter (\<lambda>d. doc_name d = n) docs) = (if n \<in> set (map doc_name docs) then 1 else 0)"
  by (induction docs) auto

lemma uploader_single:
  "nutrition_document_uploader rd st [f] False
     = Inr (Some (if file_name f \<notin> set (map doc_name (stored_documents st)) \<and> read_content rd f \<noteq> []
          then stored_documents st @ [\<lparr>doc_name = file_name f, doc_content = read_content rd f,
                         doc_chunks = chunk_loop (split_ws (read_content rd f)) 500 450 0,
                         doc_type = file_type f, doc_size = length (read_content rd f)\<rparr>]
          else stored_documents st))"
  by (simp add: nutrition_document_uploader_def process_file_cases stored_documents_def)

text \<open>
  C9, as amended. From a state whose stored documents have distinct names (the empty
  state of a new session is one), every sequence of runs of the uploader returns, and the
  stored names are distinct again. A run whose files all have stored names changes
  nothing. Two uploads of one file name leave at most one stored document with that name,
  and exactly one, the second upload changing nothing, when the name was stored before
  or the first upload has content: a file whose reader returns no content is never stored.
\<close>

theorem upload_idempotent_per_name:
  assumes "distinct (map doc_name (stored_documents st))"
  shows "(\<exists>st'. uploader_runs rd st runs = Inr st' \<and> distinct (map doc_name (stored_documents st')))
    \<and> (files \<noteq> [] \<and> (\<forall>f\<in>set files. file_name f \<in> set (map doc_name (stored_documents st)))
         \<longrightarrow> nutrition_document_uploader rd st files False = Inr (Some (stored_documents st)))
    \<and> (file_name f2 = file_name f1 \<longrightarrow>
         (\<exists>docs1 docs2.
            nutrition_document_uploader rd st [f1] False = Inr (Some docs1)
            \<and> nutrition_document_uploader rd (Some docs1) [f2] False = Inr (Some docs2)
            \<and> length (filter (\<lambda>d. doc_name d = file_name f1) docs2) \<le> 1
            \<and> (file_name f1 \<in> set (map doc_name (stored_documents st)) \<or> read_content rd f1 \<noteq> []
                 \<longrightarrow> docs2 = docs1
                     \<and> length (filter (\<lambda>d. doc_name d = file_name f1) docs2) = 1)))"
proof (intro conjI impI)
  show "\<exists>st'. uploader_runs rd st runs = Inr st' \<and> distinct (map doc_name (stored_documents st'))"
    using assms by (rule uploader_runs_distinct)
next
  assume a: "files \<noteq> [] \<and> (\<forall>f\<in>set files. file_name f \<in> set (map doc_name (stored_documents st)))"
  then have "process_files rd (stored_documents st) files = Inr (stored_documents st)"
    using process_files_stored by blast
  with a show "nutrition_document_uploader rd st files False = Inr (Some (stored_documents st))"
    by (simp add: nutrition_document_uploader_def stored_documents_def)
next
  assume same: "file_name f2 = file_name f1"
  define docs1 where "docs1 =
    (if file_name f1 \<notin> set (map doc_name (stored_documents st)) \<and> read_content rd f1 \<noteq> []
     then stored_documents st @ [\<lparr>doc_name = file_name f1, doc_content = read_content rd f1,
                         doc_chunks = chunk_loop (split_ws (read_content rd f1)) 500 450 0,
                         doc_type = file_type f1, doc_size = length (read_content rd f1)\<rparr>]
     else stored_documents st)"
  define docs2 where "docs2 =
    (if file_name f2 \<notin> set (map doc_name docs1) \<and> read_content rd f2 \<noteq> []
     then docs1 @ [\<lparr>doc_name = file_name f2, doc_content = read_content rd f2,
                         doc_chunks = chunk_loop (split_ws (read_content rd f2)) 500 450 0,
                         doc_type = file_type f2, doc_size = length (read_content rd f2)\<rparr>]
     else docs1)"
  have r1: "nutrition_document_uploader rd st [f1] False = Inr (Some docs1)"
    unfolding docs1_def by (rule uploader_single)
  have r2: "nutrition_document_uploader rd (Some docs1) [f2] False = Inr (Some docs2)"
    unfolding docs2_def using uploader_single[of rd "Some docs1" f2]
    by (simp add: stored_documents_def)
  have d1: "distinct (map doc_name docs1)" using assms by (auto simp: docs1_def)
  have d2: "distinct (map doc_name docs2)" using d1 by (auto simp: docs2_def)
  have le: "length (filter (\<lambda>d. doc_name d = file_name f1) docs2) \<le> 1"
    using count_name_distinct[OF d2, of "file_name f1"] by simp
  have stored: "file_name f1 \<in> set (map doc_name (stored_documents st)) \<or> read_content rd f1 \<noteq> []
      \<longrightarrow> docs2 = docs1 \<and> length (filter (\<lambda>d. doc_name d = file_name f1) docs2) = 1"
  proof
    assume "file_name f1 \<in> set (map doc_name (stored_documents st)) \<or> read_content rd f1 \<noteq> []"
    then have in1: "file_name f1 \<in> set (map doc_name docs1)" by (auto simp: docs1_def)
    with same have eq: "docs2 = docs1" by (simp add: docs2_def)
    from in1 eq count_name_distinct[OF d2, of "file_name f1"]
    show "docs2 = docs1 \<and> length (filter (\<lambda>d. doc_name d = file_name f1) docs2) = 1" by simp
  qed
  from r1 r2 le stored
  show "\<exists>docs1 docs2.
            nutrition_document_uploader rd st [f1] False = Inr (Some docs1)
            \<and> nutrition_document_uploader rd (Some docs1) [f2] False = Inr (Some docs2)
            \<and> length (filter (\<lambda>d. doc_name d = file_name f1) docs2) \<le> 1
            \<and> (file_name f1 \<in> set (map doc_name (stored_documents st)) \<or> read_content rd f1 \<noteq> []
                 \<longrightarrow> docs2 = docs1
                     \<and> length (filter (\<lambda>d. doc_name d = file_name f1) docs2) = 1)"
    by blast
qed

text \<open>
  A text file with content, uploaded in two runs of a new session: one document is stored.
\<close>

theorem upload_idempotent_per_name_witness:
  "distinct (map doc_name (stored_documents None))
   \<and> uploader_runs \<lparr>process_pdf_file = (\<lambda>f. []), process_csv_file = (\<lambda>f. []), process_text_file = file_bytes\<rparr> None
        [([\<lparr>file_name = ''plan.txt'', file_type = ''text/plain'', file_bytes = ''eat more kale''\<rparr>], False),
         ([\<lparr>file_name = ''plan.txt'', file_type = ''text/plain'', file_bytes = ''eat more kale''\<rparr>], False)]
       = Inr (Some [\<lparr>doc_name = ''plan.txt'', doc_content = ''eat more kale'', doc_chunks = [''eat more kale''],
                 doc_type = ''text/plain'', doc_size = 13\<rparr>])"
proof -
  let ?rd = "\<lparr>process_pdf_file = (\<lambda>f. []), process_csv_file = (\<lambda>f. []), process_text_file = file_bytes\<rparr>"
  let ?f = "\<lparr>file_name = ''plan.txt'', file_type = ''text/plain'', file_bytes = ''eat more kale''\<rparr>"
  have h: "distinct (map doc_name (stored_documents None))" by (simp add: stored_documents_def)
  have first: "nutrition_document_uploader ?rd None [?f] False = Inr (Some [\<lparr>doc_name = ''plan.txt'', doc_content = ''eat more kale'', doc_chunks = [''eat more kale''],
                 doc_type = ''text/plain'', doc_size = 13\<rparr>])"
    by code_simp
  have ne: "read_content ?rd ?f \<noteq> []" by code_simp
  from upload_idempotent_per_name[OF h, of ?rd "[]" "[]" ?f ?f] ne first
  have "nutrition_document_uploader ?rd (Some [\<lparr>doc_name = ''plan.txt'', doc_content = ''eat more kale'', doc_chunks = [''eat more kale''],
                 doc_type = ''text/plain'', doc_size = 13\<rparr>]) [?f] False = Inr (Some [\<lparr>doc_name = ''plan.txt'', doc_content = ''eat more kale'', doc_chunks = [''eat more kale''],
                 doc_type = ''text/plain'', doc_size = 13\<rparr>])"
    by auto
  with first h show ?thesis by simp
qed

text \<open>
  The claim as stated fails for a file with no content: an empty text file uploaded twice
  leaves no stored document, not one.
\<close>

theorem upload_idempotent_per_name_counterexample:
  "uploader_runs \<lparr>process_pdf_file = (\<lambda>f. []), process_csv_file = (\<lambda>f. []), process_text_file = file_bytes\<rparr> None
        [([\<lparr>file_name = ''empty.txt'', file_type = ''text/plain'', file_bytes = []\<rparr>], False),
         ([\<lparr>file_name = ''empty.txt'', file_type = ''text/plain'', file_bytes = []\<rparr>], False)]
       = Inr (Some [])"
  by code_simp

section \<open>Nutrition estimator\<close>

text \<open>
  C5. With no result from the Edamam API, \<open>calculate_nutrition("2 eggs", "2 servings")\<close>
  has 140 calories and the source \<open>Local Database\<close>, and
  \<open>calculate_nutrition("xyzfood", "1 serving")\<close> is the estimate with the default values
  150, 8.0, 20.0 and 5.0 at the multiplier 1, \<open>success\<close> false and the source
  \<open>Estimated\<close>.
\<close>

theorem calculate_nutrition_examples:
  "n_calories (calculate_nutrition None ''2 eggs'' ''2 servings'') = 140
   \<and> n_source (calculate_nutrition None ''2 eggs'' ''2 servings'') = ''Local Database''
   \<and> multiplier (lower ''xyzfood'') ''1 serving'' = 1
   \<and> calculate_nutrition None ''xyzfood'' ''1 serving'' =
        \<lparr>n_food = ''xyzfood'', n_quantity = ''1 serving'', n_calories = 150,
          n_protein = 8, n_carbs = 20, n_fat = 5,
          n_fiber = None, n_sugar = None, n_sodium = None,
          n_success = False, n_source = ''Estimated'',
          n_note = Some ''Estimated values based on food category''\<rparr>"
  by code_simp

section \<open>Safety filter\<close>

text \<open>
  C7. \<open>check_nutrition_safety\<close> without classifiers flags \<open>stop eating\<close> and
  \<open>starve yourself\<close> in "stop eating and starve yourself" and returns \<open>False\<close>; it
  returns \<open>True\<close> and no flagged term for "grilled chicken with broccoli"; and for every
  text, with or without classifiers, the first component of the result is true exactly
  when the list of flagged terms is empty.
\<close>

theorem check_nutrition_safety_verdict:
  "check_nutrition_safety None ''stop eating and starve yourself''
     = (False, [''stop eating'', ''starve yourself''])
   \<and> check_nutrition_safety None ''grilled chicken with broccoli'' = (True, [])
   \<and> (fst (check_nutrition_safety sentiment txt) \<longleftrightarrow> snd (check_nutrition_safety sentiment txt) = [])"
proof (intro conjI)
  show "check_nutrition_safety None ''stop eating and starve yourself''
     = (False, [''stop eating'', ''starve yourself''])"
    by code_simp
  show "check_nutrition_safety None ''grilled chicken with broccoli'' = (True, [])"
    by code_simp
  show "fst (check_nutrition_safety sentiment txt) \<longleftrightarrow> snd (check_nutrition_safety sentiment txt) = []"
    by (simp add: check_nutrition_safety_def Let_def)
qed


text \<open>
  With classifiers: the toxicity classifier flags a text with no unsafe pattern, and the
  verdict is \<open>False\<close>; the exception of the sentiment analyser is swallowed.
\<close>

theorem check_nutrition_safety_verdict_witness:
  "snd (check_nutrition_safety
          (Some \<lparr>toxicity_classifier = (\<lambda>t. Returns [[(''TOXIC'', 0.9), (''NOT_TOXIC'', 0.1)]]),
                sentiment_analyzer = (\<lambda>t. Raises)\<rparr>)
          ''a long enough text'') = [''AI-detected toxic content'']
   \<and> fst (check_nutrition_safety
          (Some \<lparr>toxicity_classifier = (\<lambda>t. Returns [[(''TOXIC'', 0.9), (''NOT_TOXIC'', 0.1)]]),
                sentiment_analyzer = (\<lambda>t. Raises)\<rparr>)
          ''a long enough text'') = False"
proof -
  have s: "snd (check_nutrition_safety
          (Some \<lparr>toxicity_classifier = (\<lambda>t. Returns [[(''TOXIC'', 0.9), (''NOT_TOXIC'', 0.1)]]),
                sentiment_analyzer = (\<lambda>t. Raises)\<rparr>)
          ''a long enough text'') = [''AI-detected toxic content'']"
    by code_simp
  from check_nutrition_safety_verdict[of
      "Some \<lparr>toxicity_classifier = (\<lambda>t. Returns [[(''TOXIC'', 0.9), (''NOT_TOXIC'', 0.1)]]),
                sentiment_analyzer = (\<lambda>t. Raises)\<rparr>"
      "''a long enough text''"] s
  show ?thesis by simp
qed

section \<open>Recipe safety filter\<close>

lemma is_substring_Nil: "is_substring [] s"
  by (cases s) simp_all

lemma join_Cons: "join sep (x # xs) = x @ (if xs = [] then [] else sep @ join sep xs)"
  by (cases xs) simp_all

lemma peanuts_shellfish:
  "map (\<lambda>allergy. lower (strip allergy)) (split_on CHR '','' ''peanuts, shellfish'')
     = [''peanuts'', ''shellfish'']"
  by code_simp

text \<open>
  C3, as amended. For every recipe text whose lower-cased form contains the allergy
  \<open>peanuts\<close> itself, \<open>filter_recipe_for_user_safety\<close> with the allergies
  "peanuts, shellfish" and no unpreferred food returns \<open>is_safe = False\<close>, and its
  first warning is the allergy warning, which lists \<open>peanuts\<close> first.
\<close>

theorem filter_recipe_peanuts:
  assumes "is_substring ''peanuts'' (lower recipe_text)"
  shows "\<exists>content rest more.
           filter_recipe_for_user_safety recipe_text ''peanuts, shellfish'' []
             = (False, content, (allergy_warning @ ''peanuts'' @ rest) # more)"
proof -
  define detected where
    "detected = filter (\<lambda>allergy. is_substring allergy (lower recipe_text)) [''peanuts'', ''shellfish'']"
  from assms have d: "detected = ''peanuts'' # filter (\<lambda>allergy. is_substring allergy (lower recipe_text)) [''shellfish'']"
    by (simp add: detected_def)
  then obtain ds where ds: "detected = ''peanuts'' # ds" by blast
  have j: "join '', '' detected = ''peanuts'' @ (if ds = [] then [] else '', '' @ join '', '' ds)"
    unfolding ds by (rule join_Cons)
  have ne: "''peanuts, shellfish'' \<noteq> []" by simp
  show ?thesis
    unfolding filter_recipe_for_user_safety_def Let_def peanuts_shellfish detected_def[symmetric]
    using ds j ne assms by simp
qed

theorem filter_recipe_peanuts_witness:
  "is_substring ''peanuts'' (lower ''Satay with crushed Peanuts'')
   \<and> fst (filter_recipe_for_user_safety ''Satay with crushed Peanuts'' ''peanuts, shellfish'' []) = False
   \<and> snd (snd (filter_recipe_for_user_safety ''Satay with crushed Peanuts'' ''peanuts, shellfish'' []))
       = [allergy_warning @ ''peanuts'']"
proof -
  have h: "is_substring ''peanuts'' (lower ''Satay with crushed Peanuts'')" by code_simp
  have w: "snd (snd (filter_recipe_for_user_safety ''Satay with crushed Peanuts'' ''peanuts, shellfish'' []))
       = [allergy_warning @ ''peanuts'']" by code_simp
  from filter_recipe_peanuts[OF h] h w show ?thesis by auto
qed

text \<open>
  The claim as stated fails: in a text with "Peanut Butter Sauce" the allergy \<open>peanuts\<close>
  does not occur, and the recipe is returned as safe, unchanged and with no warning.
\<close>

theorem filter_recipe_peanuts_counterexample:
  "is_substring ''Peanut Butter Sauce'' ''Noodles with Peanut Butter Sauce''
   \<and> filter_recipe_for_user_safety ''Noodles with Peanut Butter Sauce'' ''peanuts, shellfish'' []
       = (True, ''Noodles with Peanut Butter Sauce'', [])"
  by code_simp

text \<open>
  C8. For every recipe text, allergies string and list of unpreferred foods, the text
  that \<open>filter_recipe_for_user_safety\<close> returns ends with the recipe text as it was
  given. With warnings it is a blank line, the warnings, the advice to consult when an
  allergy was found, a blank line and the recipe text; with no warning it is the recipe
  text. When no allergy and no unpreferred food occurs in the recipe there is no warning,
  and the result is safe.
\<close>

theorem filter_recipe_keeps_text:
  "(case filter_recipe_for_user_safety recipe_text user_allergies_str unpreferred_foods_list of
      (is_safe, filtered_content, warnings) \<Rightarrow>
        suffix recipe_text filtered_content
        \<and> (warnings = [] \<longrightarrow> filtered_content = recipe_text)
        \<and> (warnings \<noteq> [] \<longrightarrow>
             filtered_content
               = ''\<newline>\<newline>'' @ join ''\<newline>'' warnings
                 @ (if is_safe then [] else ''\<newline>\<newline>'' @ consult_text)
                 @ ''\<newline>\<newline>'' @ recipe_text)
        \<and> ((user_allergies_str = []
              \<or> (\<forall>allergy\<in>set (split_on CHR '','' user_allergies_str).
                    \<not> is_substring (lower (strip allergy)) (lower recipe_text)))
             \<and> (\<forall>food\<in>set unpreferred_foods_list.
                    \<not> is_substring (lower (strip food)) (lower recipe_text))
             \<longrightarrow> is_safe \<and> warnings = [] \<and> filtered_content = recipe_text))"
proof -
  define user_allergies where "user_allergies =
     (if user_allergies_str \<noteq> []
      then map (\<lambda>allergy. lower (strip allergy)) (split_on CHR '','' user_allergies_str)
      else [])"
  define unpreferred_foods where "unpreferred_foods =
     (if unpreferred_foods_list \<noteq> []
      then map (\<lambda>food. lower (strip food)) unpreferred_foods_list
      else [])"
  define detected_allergens where
    "detected_allergens = filter (\<lambda>allergy. is_substring allergy (lower recipe_text)) user_allergies"
  define detected_unpreferred where
    "detected_unpreferred = filter (\<lambda>food. is_substring food (lower recipe_text)) unpreferred_foods"
  define warnings where "warnings =
     (if detected_allergens \<noteq> []
      then [allergy_warning @ join '', '' detected_allergens] else [])
     @ (if detected_unpreferred \<noteq> []
        then [unpreferred_note @ join '', '' detected_unpreferred] else [])"
  define filtered_content where "filtered_content =
     (if warnings \<noteq> []
      then (''\<newline>\<newline>'' @ join ''\<newline>'' warnings)
           @ (if \<not> (detected_allergens = []) then ''\<newline>\<newline>'' @ consult_text else [])
           @ ''\<newline>\<newline>'' @ recipe_text
      else recipe_text)"
  have res: "filter_recipe_for_user_safety recipe_text user_allergies_str unpreferred_foods_list
      = (detected_allergens = [], filtered_content, warnings)"
    unfolding filter_recipe_for_user_safety_def Let_def filtered_content_def warnings_def
      detected_unpreferred_def detected_allergens_def unpreferred_foods_def user_allergies_def
    by (rule refl)
  have suf: "suffix recipe_text filtered_content"
  proof (cases "warnings = []")
    case True
    then show ?thesis by (simp add: filtered_content_def)
  next
    case False
    then have "filtered_content =
        ((''\<newline>\<newline>'' @ join ''\<newline>'' warnings)
           @ (if \<not> (detected_allergens = []) then ''\<newline>\<newline>'' @ consult_text else [])
           @ ''\<newline>\<newline>'') @ recipe_text"
      by (simp add: filtered_content_def)
    then show ?thesis by (rule suffixI)
  qed
  have w0: "warnings = [] \<longrightarrow> filtered_content = recipe_text"
    by (simp add: filtered_content_def)
  have w1: "warnings \<noteq> [] \<longrightarrow>
             filtered_content
               = ''\<newline>\<newline>'' @ join ''\<newline>'' warnings
                 @ (if detected_allergens = [] then [] else ''\<newline>\<newline>'' @ consult_text)
                 @ ''\<newline>\<newline>'' @ recipe_text"
    by (simp add: filtered_content_def)
  have none: "(user_allergies_str = []
              \<or> (\<forall>allergy\<in>set (split_on CHR '','' user_allergies_str).
                    \<not> is_substring (lower (strip allergy)) (lower recipe_text)))
             \<and> (\<forall>food\<in>set unpreferred_foods_list.
                    \<not> is_substring (lower (strip food)) (lower recipe_text))
             \<longrightarrow> detected_allergens = [] \<and> warnings = [] \<and> filtered_content = recipe_text"
  proof
    assume a: "(user_allergies_str = []
              \<or> (\<forall>allergy\<in>set (split_on CHR '','' user_allergies_str).
                    \<not> is_substring (lower (strip allergy)) (lower recipe_text)))
             \<and> (\<forall>food\<in>set unpreferred_foods_list.
                    \<not> is_substring (lower (strip food)) (lower recipe_text))"
    then have da: "detected_allergens = []"
      by (auto simp: detected_allergens_def user_allergies_def filter_empty_conv)
    from a have du: "detected_unpreferred = []"
      by (auto simp: detected_unpreferred_def unpreferred_foods_def filter_empty_conv)
    from da du have "warnings = []" by (simp add: warnings_def)
    with da w0 show "detected_allergens = [] \<and> warnings = [] \<and> filtered_content = recipe_text"
      by simp
  qed
  from suf w0 w1 none show ?thesis unfolding res by simp
qed

text \<open>
  A recipe with an allergy and an unpreferred food: both warnings and the advice come
  before the recipe text. A recipe with neither is returned as it is.
\<close>

theorem filter_recipe_keeps_text_witness:
  "filter_recipe_for_user_safety ''Shrimp Rice'' ''shrimp'' [''rice'']
     = (False,
        ''\<newline>\<newline>'' @ allergy_warning @ ''shrimp'' @ ''\<newline>'' @ unpreferred_note @ ''rice''
          @ ''\<newline>\<newline>'' @ consult_text @ ''\<newline>\<newline>Shrimp Rice'',
        [allergy_warning @ ''shrimp'', unpreferred_note @ ''rice''])
   \<and> suffix ''Shrimp Rice'' (fst (snd (filter_recipe_for_user_safety ''Shrimp Rice'' ''shrimp'' [''rice''])))
   \<and> filter_recipe_for_user_safety ''Plain Oats'' ''shrimp'' [''rice''] = (True, ''Plain Oats'', [])"
proof -
  have r1: "filter_recipe_for_user_safety ''Shrimp Rice'' ''shrimp'' [''rice'']
     = (False,
        ''\<newline>\<newline>'' @ allergy_warning @ ''shrimp'' @ ''\<newline>'' @ unpreferred_note @ ''rice''
          @ ''\<newline>\<newline>'' @ consult_text @ ''\<newline>\<newline>Shrimp Rice'',
        [allergy_warning @ ''shrimp'', unpreferred_note @ ''rice''])"
    by code_simp
  have r2: "filter_recipe_for_user_safety ''Plain Oats'' ''shrimp'' [''rice''] = (True, ''Plain Oats'', [])"
    by code_simp
  from filter_recipe_keeps_text[of "''Shrimp Rice''" "''shrimp''" "[''rice'']"]
  have "suffix ''Shrimp Rice'' (fst (snd (filter_recipe_for_user_safety ''Shrimp Rice'' ''shrimp'' [''rice''])))"
    by (simp add: case_prod_beta)
  with r1 r2 show ?thesis by blast
qed

text \<open>
  C10. If the allergies string is not empty and one of its fields between commas is empty
  after trimming, then for every recipe text \<open>filter_recipe_for_user_safety\<close> returns
  \<open>is_safe = False\<close>, with the allergy warning as its first warning: the empty string
  occurs in every text. A string that ends with a comma and a string of spaces only are
  such strings.
\<close>

theorem filter_recipe_empty_allergy:
  assumes "user_allergies_str \<noteq> []"
    and "\<exists>allergy\<in>set (split_on CHR '','' user_allergies_str). strip allergy = []"
  shows "\<exists>content listed more.
           filter_recipe_for_user_safety recipe_text user_allergies_str unpreferred_foods_list
             = (False, content, (allergy_warning @ listed) # more)"
proof -
  define user_allergies where
    "user_allergies = map (\<lambda>allergy. lower (strip allergy)) (split_on CHR '','' user_allergies_str)"
  define detected where
    "detected = filter (\<lambda>allergy. is_substring allergy (lower recipe_text)) user_allergies"
  from assms(2) have "[] \<in> set user_allergies"
    by (auto simp: user_allergies_def lower_def image_iff)
  then have "[] \<in> set detected" by (simp add: detected_def is_substring_Nil)
  then have ne: "detected \<noteq> []" by auto
  show ?thesis
    unfolding filter_recipe_for_user_safety_def Let_def
    using assms(1) ne by (simp add: user_allergies_def[symmetric] detected_def[symmetric])
qed

theorem filter_recipe_empty_allergy_witness:
  "''peanuts,'' \<noteq> [] \<and> split_on CHR '','' ''peanuts,'' = [''peanuts'', []]
   \<and> fst (filter_recipe_for_user_safety ''Plain rice'' ''peanuts,'' []) = False
   \<and> '' '' \<noteq> [] \<and> strip '' '' = []
   \<and> fst (filter_recipe_for_user_safety ''Plain rice'' '' '' []) = False"
proof -
  have s1: "split_on CHR '','' ''peanuts,'' = [''peanuts'', []]" by code_simp
  have h1: "\<exists>allergy\<in>set (split_on CHR '','' ''peanuts,''). strip allergy = []" by code_simp
  have s2: "strip '' '' = []" by code_simp
  have h2: "\<exists>allergy\<in>set (split_on CHR '','' '' ''). strip allergy = []" by code_simp
  have n1: "''peanuts,'' \<noteq> []" and n2: "'' '' \<noteq> []" by simp_all
  from filter_recipe_empty_allergy[OF n1 h1, of "''Plain rice''" "[]"]
  have a: "fst (filter_recipe_for_user_safety ''Plain rice'' ''peanuts,'' []) = False" by auto
  from filter_recipe_empty_allergy[OF n2 h2, of "''Plain rice''" "[]"]
  have b: "fst (filter_recipe_for_user_safety ''Plain rice'' '' '' []) = False" by auto
  from s1 s2 n1 n2 a b show ?thesis by blast
qed

section \<open>Request processing\<close>

lemma generate_response_history:
  "generate_response e st enable_streaming = Inr (response_text, st1) \<Longrightarrow>
     chat_history st1 = chat_history st"
  by (auto simp: generate_response_def split: generation.splits if_splits prod.splits)

lemma generate_response_text:
  "generate_response e st enable_streaming = Inr (response_text, st1) \<Longrightarrow>
     (generation_result e = No_Response \<and> response_text = (if enable_streaming then [] else no_response_text))
     \<or> generation_result e = Response response_text"
  by (auto simp: generate_response_def split: generation.splits if_splits prod.splits)

lemma generate_response_raises:
  "generate_response e st enable_streaming = Inl err \<longleftrightarrow>
     generation_result e = Generation_Raises \<and> err = Exception"
  by (auto simp: generate_response_def split: generation.splits if_splits prod.splits)

lemma no_response_text_plain: "\<not> any_in recipe_keywords (lower no_response_text)"
  by code_simp

lemma try_block_raised:
  assumes "try_block e st prompt_to_use has_image selected_persona temperature function_result
             enable_streaming enable_meal_logging request_type = (st', Some err)"
  shows "chat_history st' = chat_history st"
proof (cases "generate_response e st enable_streaming")
  case (Inl a)
  with assms show ?thesis by (simp add: try_block_def)
next
  case (Inr p)
  obtain response_text st1 where p: "p = (response_text, st1)" by (cases p)
  from assms Inr p have "st' = st1"
    by (simp add: try_block_def Let_def split: if_splits)
  with generate_response_history[of e st enable_streaming response_text st1] Inr p
  show ?thesis by simp
qed

lemma try_block_completed:
  assumes "try_block e st prompt_to_use has_image selected_persona temperature function_result
             enable_streaming enable_meal_logging request_type = (st', None)"
  shows "\<exists>response_text st1 extracted.
           generate_response e st enable_streaming = Inr (response_text, st1)
           \<and> \<not> (response_text \<noteq> [] \<and> any_in recipe_keywords (lower response_text))
           \<and> chat_history st' = chat_history st @
                [\<lparr>ce_prompt = prompt_to_use, ce_response = response_text,
                  ce_persona = selected_persona, ce_temperature = temperature,
                  ce_function_result = function_result, ce_nutrition_data = extracted,
                  ce_timestamp = time_time e, ce_has_image = has_image,
                  ce_request_type = request_type\<rparr>]"
proof (cases "generate_response e st enable_streaming")
  case (Inl a)
  with assms show ?thesis by (simp add: try_block_def)
next
  case (Inr p)
  obtain response_text st1 where p: "p = (response_text, st1)" by (cases p)
  have h: "chat_history st1 = chat_history st"
    using generate_response_history[of e st enable_streaming response_text st1] Inr p by simp
  from assms Inr p have no: "\<not> (response_text \<noteq> [] \<and> any_in recipe_keywords (lower response_text))"
    by (auto simp: try_block_def Let_def split: if_splits)
  from assms Inr p no h have "chat_history st' = chat_history st @
                [\<lparr>ce_prompt = prompt_to_use, ce_response = response_text,
                  ce_persona = selected_persona, ce_temperature = temperature,
                  ce_function_result = function_result,
                  ce_nutrition_data = (if response_text \<noteq> [] then Data (extract_nutrition_data e response_text)
                    else Empty_Dict),
                  ce_timestamp = time_time e, ce_has_image = has_image,
                  ce_request_type = request_type\<rparr>]"
    by (auto simp: try_block_def Let_def split: if_splits option.splits)
  with Inr p no show ?thesis by blast
qed


text \<open>
  C1. Every request that \<open>process_nutrition_request\<close> processes leaves the chat history
  with exactly one more entry, at its end, for the prompt of the request. A prompt that
  the safety check flags gives the entry with the response "Content flagged for safety
  and blocked". An exception in the \<open>try\<close> gives the entry with the response "Sorry,
  there was an issue processing your request. Please try again.": the generation raises,
  or the response is not empty and has a recipe keyword, and the call of the recipe filter
  after the two branches raises. Otherwise the entry has the text of the response, or the
  text for no response.
\<close>

theorem process_nutrition_request_one_record:
  "(let st' = process_nutrition_request e st prompt_to_use has_image selected_persona temperature
               enable_nutrition_calculator enable_streaming enable_meal_logging request_type;
        is_safe = fst (check_nutrition_safety (sentiment_models e) prompt_to_use);
        blocked = placeholder_entry e flagged_response prompt_to_use has_image selected_persona
                    temperature request_type;
        failed = placeholder_entry e error_response prompt_to_use has_image selected_persona
                    temperature request_type
    in (\<exists>entry. chat_history st' = chat_history st @ [entry] \<and> ce_prompt entry = prompt_to_use)
       \<and> length (chat_history st') = length (chat_history st) + 1
       \<and> (\<not> is_safe \<longrightarrow> chat_history st' = chat_history st @ [blocked])
       \<and> (is_safe \<and> generation_result e = Generation_Raises \<longrightarrow>
            chat_history st' = chat_history st @ [failed])
       \<and> (\<forall>t. is_safe \<and> generation_result e = Response t
                \<and> t \<noteq> [] \<and> any_in recipe_keywords (lower t) \<longrightarrow>
            chat_history st' = chat_history st @ [failed])
       \<and> (\<forall>t. is_safe \<and> generation_result e = Response t
                \<and> \<not> (t \<noteq> [] \<and> any_in recipe_keywords (lower t)) \<longrightarrow>
            (\<exists>entry. chat_history st' = chat_history st @ [entry] \<and> ce_prompt entry = prompt_to_use
                      \<and> ce_response entry = t))
       \<and> (is_safe \<and> generation_result e = No_Response \<longrightarrow>
            (\<exists>entry. chat_history st' = chat_history st @ [entry] \<and> ce_prompt entry = prompt_to_use
                      \<and> ce_response entry = (if enable_streaming then [] else no_response_text))))"
proof -
  define st' where "st' = process_nutrition_request e st prompt_to_use has_image selected_persona
     temperature enable_nutrition_calculator enable_streaming enable_meal_logging request_type"
  define is_safe where "is_safe = fst (check_nutrition_safety (sentiment_models e) prompt_to_use)"
  define blocked where "blocked = placeholder_entry e flagged_response prompt_to_use has_image
     selected_persona temperature request_type"
  define failed where "failed = placeholder_entry e error_response prompt_to_use has_image
     selected_persona temperature request_type"
  define function_result where
    "function_result = function_call e prompt_to_use request_type enable_nutrition_calculator"
  define tb where "tb = try_block e st prompt_to_use has_image selected_persona temperature
     function_result enable_streaming enable_meal_logging request_type"
  obtain flagged_terms where chk:
    "check_nutrition_safety (sentiment_models e) prompt_to_use = (is_safe, flagged_terms)"
    unfolding is_safe_def by (cases "check_nutrition_safety (sentiment_models e) prompt_to_use") simp
  have unsafe: "chat_history st' = chat_history st @ [blocked]" if "\<not> is_safe"
    using that chk by (simp add: st'_def process_nutrition_request_def blocked_def)
  have safe: "st' = (case tb of (s, None) \<Rightarrow> s
                      | (s, Some err) \<Rightarrow> s\<lparr>chat_history := chat_history s @ [failed]\<rparr>)"
    if "is_safe"
    using that chk
    by (simp add: st'_def process_nutrition_request_def Let_def tb_def function_result_def failed_def)
  have raised: "chat_history st' = chat_history st @ [failed]" if "is_safe" "snd tb \<noteq> None"
  proof -
    from that(2) obtain s err where tb: "tb = (s, Some err)" by (cases tb) auto
    from try_block_raised[OF tb[unfolded tb_def]] have "chat_history s = chat_history st" .
    with safe[OF that(1)] tb show ?thesis by simp
  qed
  have completed: "\<exists>response_text st1 extracted.
           generate_response e st enable_streaming = Inr (response_text, st1)
           \<and> \<not> (response_text \<noteq> [] \<and> any_in recipe_keywords (lower response_text))
           \<and> chat_history st' = chat_history st @
                [\<lparr>ce_prompt = prompt_to_use, ce_response = response_text,
                  ce_persona = selected_persona, ce_temperature = temperature,
                  ce_function_result = function_result, ce_nutrition_data = extracted,
                  ce_timestamp = time_time e, ce_has_image = has_image,
                  ce_request_type = request_type\<rparr>]"
    if "is_safe" "snd tb = None"
  proof -
    from that(2) obtain s where tb: "tb = (s, None)" by (cases tb) auto
    from safe[OF that(1)] tb have "st' = s" by simp
    with try_block_completed[OF tb[unfolded tb_def]] show ?thesis by simp
  qed
  have tb_raises: "snd tb \<noteq> None \<longleftrightarrow>
      generation_result e = Generation_Raises
      \<or> (\<exists>t. generation_result e = Response t \<and> t \<noteq> [] \<and> any_in recipe_keywords (lower t))"
    unfolding tb_def try_block_def generate_response_def
    using no_response_text_plain
    by (auto simp: Let_def split: generation.splits prod.splits)
  have one: "\<exists>entry. chat_history st' = chat_history st @ [entry] \<and> ce_prompt entry = prompt_to_use"
  proof (cases is_safe)
    case False
    with unsafe show ?thesis by (simp add: blocked_def placeholder_entry_def)
  next
    case True
    show ?thesis
    proof (cases "snd tb = None")
      case False
      with raised[OF True] show ?thesis by (simp add: failed_def placeholder_entry_def)
    next
      case tbn: True
      from completed[OF True tbn] show ?thesis by auto
    qed
  qed
  then have len: "length (chat_history st') = length (chat_history st) + 1" by auto
  have c4: "is_safe \<and> generation_result e = Generation_Raises \<longrightarrow>
            chat_history st' = chat_history st @ [failed]"
    using raised tb_raises by blast
  have c5: "\<forall>t. is_safe \<and> generation_result e = Response t
                \<and> t \<noteq> [] \<and> any_in recipe_keywords (lower t) \<longrightarrow>
            chat_history st' = chat_history st @ [failed]"
    using raised tb_raises by blast
  have c6: "\<forall>t. is_safe \<and> generation_result e = Response t
                \<and> \<not> (t \<noteq> [] \<and> any_in recipe_keywords (lower t)) \<longrightarrow>
            (\<exists>entry. chat_history st' = chat_history st @ [entry] \<and> ce_prompt entry = prompt_to_use
                      \<and> ce_response entry = t)"
  proof (intro allI impI)
    fix t assume a: "is_safe \<and> generation_result e = Response t
                \<and> \<not> (t \<noteq> [] \<and> any_in recipe_keywords (lower t))"
    then have "snd tb = None" using tb_raises by auto
    from completed[OF _ this] a obtain response_text st1 extracted where
      g: "generate_response e st enable_streaming = Inr (response_text, st1)"
      and h: "chat_history st' = chat_history st @
                [\<lparr>ce_prompt = prompt_to_use, ce_response = response_text,
                  ce_persona = selected_persona, ce_temperature = temperature,
                  ce_function_result = function_result, ce_nutrition_data = extracted,
                  ce_timestamp = time_time e, ce_has_image = has_image,
                  ce_request_type = request_type\<rparr>]"
      by blast
    from generate_response_text[OF g] a have "response_text = t" by auto
    with h show "\<exists>entry. chat_history st' = chat_history st @ [entry] \<and> ce_prompt entry = prompt_to_use
                      \<and> ce_response entry = t" by simp
  qed
  have c7: "is_safe \<and> generation_result e = No_Response \<longrightarrow>
            (\<exists>entry. chat_history st' = chat_history st @ [entry] \<and> ce_prompt entry = prompt_to_use
                      \<and> ce_response entry = (if enable_streaming then [] else no_response_text))"
  proof
    assume a: "is_safe \<and> generation_result e = No_Response"
    then have "snd tb = None" using tb_raises by auto
    from completed[OF _ this] a obtain response_text st1 extracted where
      g: "generate_response e st enable_streaming = Inr (response_text, st1)"
      and h: "chat_history st' = chat_history st @
                [\<lparr>ce_prompt = prompt_to_use, ce_response = response_text,
                  ce_persona = selected_persona, ce_temperature = temperature,
                  ce_function_result = function_result, ce_nutrition_data = extracted,
                  ce_timestamp = time_time e, ce_has_image = has_image,
                  ce_request_type = request_type\<rparr>]"
      by blast
    from generate_response_text[OF g] a
    have "response_text = (if enable_streaming then [] else no_response_text)" by auto
    with h show "\<exists>entry. chat_history st' = chat_history st @ [entry] \<and> ce_prompt entry = prompt_to_use
                      \<and> ce_response entry = (if enable_streaming then [] else no_response_text)"
      by simp
  qed
  from one len unsafe c4 c5 c6 c7 show ?thesis
    unfolding Let_def st'_def[symmetric] is_safe_def[symmetric] blocked_def[symmetric]
      failed_def[symmetric]
    by blast
qed


text \<open>
  A new session with no classifiers: a flagged prompt, a response with a recipe keyword,
  a plain response and a generation that raises each leave one entry.
\<close>

theorem process_nutrition_request_one_record_witness:
  "map ce_response (chat_history
      (process_nutrition_request
       \<lparr>sentiment_models = None, get_edamam_nutrition = (\<lambda>food_item quantity. None),
         generation_result = (Response ''Eat well''),
         extract_nutrition_data =
           (\<lambda>t. \<lparr>x_calories = 200, x_protein = 10, x_carbs = 25, x_fat = 8,
                  x_source = ''Extracted from AI response''\<rparr>),
         time_time = 0, time_strftime = ''2025-01-01 12:00:00''\<rparr>
       \<lparr>chat_history = [], nutrition_data = [], meal_log = [], latest_ai_response = None,
         clear_image = False, allergies = [], unpreferred_foods = []\<rparr>
       ''how do I stop eating'' False ''Coach'' 0.6 True False True ''text''))
     = [''Content flagged for safety and blocked'']
   \<and> map ce_response (chat_history
      (process_nutrition_request
       \<lparr>sentiment_models = None, get_edamam_nutrition = (\<lambda>food_item quantity. None),
         generation_result = (Response ''Here is a recipe with kale''),
         extract_nutrition_data =
           (\<lambda>t. \<lparr>x_calories = 200, x_protein = 10, x_carbs = 25, x_fat = 8,
                  x_source = ''Extracted from AI response''\<rparr>),
         time_time = 0, time_strftime = ''2025-01-01 12:00:00''\<rparr>
       \<lparr>chat_history = [], nutrition_data = [], meal_log = [], latest_ai_response = None,
         clear_image = False, allergies = [], unpreferred_foods = []\<rparr>
       ''is kale healthy'' False ''Coach'' 0.6 True False True ''text''))
     = [''Sorry, there was an issue processing your request. Please try again.'']
   \<and> map ce_response (chat_history
      (process_nutrition_request
       \<lparr>sentiment_models = None, get_edamam_nutrition = (\<lambda>food_item quantity. None),
         generation_result = (Response ''Kale is rich in iron''),
         extract_nutrition_data =
           (\<lambda>t. \<lparr>x_calories = 200, x_protein = 10, x_carbs = 25, x_fat = 8,
                  x_source = ''Extracted from AI response''\<rparr>),
         time_time = 0, time_strftime = ''2025-01-01 12:00:00''\<rparr>
       \<lparr>chat_history = [], nutrition_data = [], meal_log = [], latest_ai_response = None,
         clear_image = False, allergies = [], unpreferred_foods = []\<rparr>
       ''is kale healthy'' False ''Coach'' 0.6 True False True ''text''))
     = [''Kale is rich in iron'']
   \<and> map ce_response (chat_history
      (process_nutrition_request
       \<lparr>sentiment_models = None, get_edamam_nutrition = (\<lambda>food_item quantity. None),
         generation_result = Generation_Raises,
         extract_nutrition_data =
           (\<lambda>t. \<lparr>x_calories = 200, x_protein = 10, x_carbs = 25, x_fat = 8,
                  x_source = ''Extracted from AI response''\<rparr>),
         time_time = 0, time_strftime = ''2025-01-01 12:00:00''\<rparr>
       \<lparr>chat_history = [], nutrition_data = [], meal_log = [], latest_ai_response = None,
         clear_image = False, allergies = [], unpreferred_foods = []\<rparr>
       ''is kale healthy'' False ''Coach'' 0.6 True False True ''text''))
     = [''Sorry, there was an issue processing your request. Please try again.'']"
proof -
  have unsafe: "\<not> fst (check_nutrition_safety None ''how do I stop eating'')" by code_simp
  have safe: "fst (check_nutrition_safety None ''is kale healthy'')" by code_simp
  have kw: "any_in recipe_keywords (lower ''Here is a recipe with kale'')" by code_simp
  have nkw: "\<not> any_in recipe_keywords (lower ''Kale is rich in iron'')" by code_simp
  have a: "map ce_response (chat_history
      (process_nutrition_request
       \<lparr>sentiment_models = None, get_edamam_nutrition = (\<lambda>food_item quantity. None),
         generation_result = (Response ''Eat well''),
         extract_nutrition_data =
           (\<lambda>t. \<lparr>x_calories = 200, x_protein = 10, x_carbs = 25, x_fat = 8,
                  x_source = ''Extracted from AI response''\<rparr>),
         time_time = 0, time_strftime = ''2025-01-01 12:00:00''\<rparr>
       \<lparr>chat_history = [], nutrition_data = [], meal_log = [], latest_ai_response = None,
         clear_image = False, allergies = [], unpreferred_foods = []\<rparr>
       ''how do I stop eating'' False ''Coach'' 0.6 True False True ''text''))
     = [''Content flagged for safety and blocked'']"
    using process_nutrition_request_one_record[of
       "\<lparr>sentiment_models = None, get_edamam_nutrition = (\<lambda>food_item quantity. None),
         generation_result = (Response ''Eat well''),
         extract_nutrition_data =
           (\<lambda>t. \<lparr>x_calories = 200, x_protein = 10, x_carbs = 25, x_fat = 8,
                  x_source = ''Extracted from AI response''\<rparr>),
         time_time = 0, time_strftime = ''2025-01-01 12:00:00''\<rparr>"
       "\<lparr>chat_history = [], nutrition_data = [], meal_log = [], latest_ai_response = None,
         clear_image = False, allergies = [], unpreferred_foods = []\<rparr>"
       "''how do I stop eating''" False "''Coach''" "0.6" True False True "''text''", unfolded Let_def] unsafe
    by (simp add: placeholder_entry_def flagged_response_def)
  have b: "map ce_response (chat_history
      (process_nutrition_request
       \<lparr>sentiment_models = None, get_edamam_nutrition = (\<lambda>food_item quantity. None),
         generation_result = (Response ''Here is a recipe with kale''),
         extract_nutrition_data =
           (\<lambda>t. \<lparr>x_calories = 200, x_protein = 10, x_carbs = 25, x_fat = 8,
                  x_source = ''Extracted from AI response''\<rparr>),
         time_time = 0, time_strftime = ''2025-01-01 12:00:00''\<rparr>
       \<lparr>chat_history = [], nutrition_data = [], meal_log = [], latest_ai_response = None,
         clear_image = False, allergies = [], unpreferred_foods = []\<rparr>
       ''is kale healthy'' False ''Coach'' 0.6 True False True ''text''))
     = [''Sorry, there was an issue processing your request. Please try again.'']"
    using process_nutrition_request_one_record[of
       "\<lparr>sentiment_models = None, get_edamam_nutrition = (\<lambda>food_item quantity. None),
         generation_result = (Response ''Here is a recipe with kale''),
         extract_nutrition_data =
           (\<lambda>t. \<lparr>x_calories = 200, x_protein = 10, x_carbs = 25, x_fat = 8,
                  x_source = ''Extracted from AI response''\<rparr>),
         time_time = 0, time_strftime = ''2025-01-01 12:00:00''\<rparr>"
       "\<lparr>chat_history = [], nutrition_data = [], meal_log = [], latest_ai_response = None,
         clear_image = False, allergies = [], unpreferred_foods = []\<rparr>"
       "''is kale healthy''" False "''Coach''" "0.6" True False True "''text''", unfolded Let_def] safe kw
    by (simp add: placeholder_entry_def error_response_def)
  have c: "map ce_response (chat_history
      (process_nutrition_request
       \<lparr>sentiment_models = None, get_edamam_nutrition = (\<lambda>food_item quantity. None),
         generation_result = (Response ''Kale is rich in iron''),
         extract_nutrition_data =
           (\<lambda>t. \<lparr>x_calories = 200, x_protein = 10, x_carbs = 25, x_fat = 8,
                  x_source = ''Extracted from AI response''\<rparr>),
         time_time = 0, time_strftime = ''2025-01-01 12:00:00''\<rparr>
       \<lparr>chat_history = [], nutrition_data = [], meal_log = [], latest_ai_response = None,
         clear_image = False, allergies = [], unpreferred_foods = []\<rparr>
       ''is kale healthy'' False ''Coach'' 0.6 True False True ''text''))
     = [''Kale is rich in iron'']"
    using process_nutrition_request_one_record[of
       "\<lparr>sentiment_models = None, get_edamam_nutrition = (\<lambda>food_item quantity. None),
         generation_result = (Response ''Kale is rich in iron''),
         extract_nutrition_data =
           (\<lambda>t. \<lparr>x_calories = 200, x_protein = 10, x_carbs = 25, x_fat = 8,
                  x_source = ''Extracted from AI response''\<rparr>),
         time_time = 0, time_strftime = ''2025-01-01 12:00:00''\<rparr>"
       "\<lparr>chat_history = [], nutrition_data = [], meal_log = [], latest_ai_response = None,
         clear_image = False, allergies = [], unpreferred_foods = []\<rparr>"
       "''is kale healthy''" False "''Coach''" "0.6" True False True "''text''", unfolded Let_def] safe nkw
    by auto
  have d: "map ce_response (chat_history
      (process_nutrition_request
       \<lparr>sentiment_models = None, get_edamam_nutrition = (\<lambda>food_item quantity. None),
         generation_result = Generation_Raises,
         extract_nutrition_data =
           (\<lambda>t. \<lparr>x_calories = 200, x_protein = 10, x_carbs = 25, x_fat = 8,
                  x_source = ''Extracted from AI response''\<rparr>),
         time_time = 0, time_strftime = ''2025-01-01 12:00:00''\<rparr>
       \<lparr>chat_history = [], nutrition_data = [], meal_log = [], latest_ai_response = None,
         clear_image = False, allergies = [], unpreferred_foods = []\<rparr>
       ''is kale healthy'' False ''Coach'' 0.6 True False True ''text''))
     = [''Sorry, there was an issue processing your request. Please try again.'']"
    using process_nutrition_request_one_record[of
       "\<lparr>sentiment_models = None, get_edamam_nutrition = (\<lambda>food_item quantity. None),
         generation_result = Generation_Raises,
         extract_nutrition_data =
           (\<lambda>t. \<lparr>x_calories = 200, x_protein = 10, x_carbs = 25, x_fat = 8,
                  x_source = ''Extracted from AI response''\<rparr>),
         time_time = 0, time_strftime = ''2025-01-01 12:00:00''\<rparr>"
       "\<lparr>chat_history = [], nutrition_data = [], meal_log = [], latest_ai_response = None,
         clear_image = False, allergies = [], unpreferred_foods = []\<rparr>"
       "''is kale healthy''" False "''Coach''" "0.6" True False True "''text''", unfolded Let_def] safe
    by (simp add: placeholder_entry_def error_response_def)
  from a b c d show ?thesis by blast
qed

end
